theory Spec2Isabelle
  imports Complex_Main
begin

section \<open>Python primitives used by the scripts\<close>

text \<open>
  The scripts compute with Python \<open>int\<close> (unbounded, modelled as \<open>int\<close>) and Python
  \<open>float\<close> (binary64). A float is modelled as a \<open>real\<close>. Where a property of the
  program depends on the range or the rounding of binary64, the operation is modelled
  with it: \<open>math.exp\<close> raises \<open>OverflowError\<close> when its result is beyond the largest
  float, and the growth multiplier and the band's pre-rounding value round every literal
  and every operation to binary64 (\<open>b64\<close>). Every other float operation returns the
  exact mathematical value; the conversion of an integer beyond the largest float, which
  raises \<open>OverflowError\<close> too, is outside this model. Exceptions are values of the type
  \<open>error\<close>; a computation that may raise returns \<open>error + 'a\<close>.
\<close>

datatype error = ValueError | OverflowError | IndexError | HTTPError

text \<open>\<open>round(x)\<close> with one argument: the nearest integer, a tie going to the even one.\<close>

definition py_round :: "real \<Rightarrow> int" where
  "py_round x =
     (let f = \<lfloor>x\<rfloor>; d = x - of_int f
      in if d < 1 / 2 then f
         else if 1 / 2 < d then f + 1
         else if even f then f else f + 1)"

text \<open>\<open>round(x, k)\<close>: the same rounding at the \<open>k\<close>-th decimal place.\<close>

definition py_round_nd :: "real \<Rightarrow> nat \<Rightarrow> real" where
  "py_round_nd x k = of_int (py_round (x * 10 ^ k)) / 10 ^ k"

text \<open>\<open>int(x)\<close> on a float truncates towards zero.\<close>

definition py_int :: "real \<Rightarrow> int" where
  "py_int x = (if 0 \<le> x then \<lfloor>x\<rfloor> else \<lceil>x\<rceil>)"

text \<open>\<open>math.log10\<close> raises \<open>ValueError\<close> outside its domain.\<close>

definition math_log10 :: "real \<Rightarrow> error + real" where
  "math_log10 x = (if x \<le> 0 then Inl ValueError else Inr (log 10 x))"

text \<open>
  The largest finite binary64 number is \<open>(2 ^ 53 - 1) * 2 ^ 971\<close>. \<open>math.exp\<close>
  raises \<open>OverflowError\<close> when its result is beyond it, that is for an argument
  above about 709.78.
\<close>

definition float_max :: real where
  "float_max = (2 ^ 53 - 1) * 2 ^ 971"

definition math_exp :: "real \<Rightarrow> error + real" where
  "math_exp x = (if float_max < exp x then Inl OverflowError else Inr (exp x))"

text \<open>
  Rounding to binary64: \<open>b64 x\<close> is the number with a significand of 53 bits nearest
  to \<open>x\<close>, a tie going to the even significand. \<open>expo x\<close> is the binary exponent of
  \<open>x\<close> and \<open>ulp x\<close> the weight of the last bit of its significand; \<open>x\<close> is divided
  by \<open>ulp x\<close>, rounded to an integer and multiplied back. The exponent is not bounded:
  there is no overflow and there are no subnormal numbers.
\<close>

definition expo :: "real \<Rightarrow> int" where
  "expo x = \<lfloor>log 2 \<bar>x\<bar>\<rfloor>"

definition ulp :: "real \<Rightarrow> real" where
  "ulp x = 2 powr of_int (expo x - 52)"

definition b64 :: "real \<Rightarrow> real" where
  "b64 x = (if x = 0 then 0 else of_int (py_round (x / ulp x)) * ulp x)"

section \<open>scripts/daily.py\<close>

definition clamp :: "real \<Rightarrow> real \<Rightarrow> real \<Rightarrow> real" where
  "clamp x lo hi = max lo (min hi x)"

definition logistic :: "real \<Rightarrow> error + real" where
  "logistic z = (case math_exp (- z) of Inl e \<Rightarrow> Inl e | Inr v \<Rightarrow> Inr (1 / (1 + v)))"

text \<open>
  A repository object returned by the telemetry provider. The keys read with
  \<open>repo.get(key, default)\<close> may be absent (\<open>None\<close>); the keys read with
  \<open>repo[key]\<close> are fields. The two timestamps are the parsed instants, in seconds.
  \<open>full_name\<close>, \<open>html_url\<close> and \<open>language\<close> carry the prefix \<open>gh_\<close>.
\<close>

record repo =
  gh_full_name :: string
  gh_html_url :: string
  stargazers_count :: "int option"
  forks_count :: "int option"
  open_issues_count :: "int option"
  gh_language :: "string option"
  created_at :: real
  pushed_at :: real

text \<open>The calendar date of an instant, as a day number; file names are keyed by it.\<close>

definition date_of :: "real \<Rightarrow> int" where
  "date_of t = \<lfloor>t / 86400\<rfloor>"

record features =
  f_age_days :: real
  f_since_push_days :: real
  f_stars_per_day :: real
  f_forks_now :: int
  f_issues_now :: int
  f_language :: string

record prediction =
  date_utc :: int
  full_name :: string
  html_url :: string
  stars_now :: int
  breakout_threshold_7d :: int
  p_breakout_7d :: real
  stars_pred_7d :: int
  stars_pred_low_7d :: int
  stars_pred_high_7d :: int
  features :: features
  model_type :: string

text \<open>
  The body of the loop over \<open>repos\<close> in \<open>main\<close>, one definition for each local
  variable, with the variables it reads as arguments. The local \<open>stars_pred_7d\<close> is
  \<open>stars_pred\<close> here, since the prediction's field has that name; \<open>band_raw\<close> and
  \<open>growth_multiplier\<close> name the subexpressions \<open>0.25 * breakout_threshold *
  (1.0 - p_breakout)\<close> and \<open>0.8 + 0.6 * p_breakout\<close>, evaluated from left to right
  in binary64: the literals 0.8 and 0.6 are the floats nearest to them, 0.25 and 1.0 are
  floats, and the integer threshold is converted to a float before it is multiplied.
  \<open>get_int v d\<close> is \<open>int(repo.get(key, d))\<close> for the value \<open>v\<close> stored under the
  key, if any.
\<close>

definition get_int :: "int option \<Rightarrow> int \<Rightarrow> int" where
  "get_int v dflt = (case v of None \<Rightarrow> dflt | Some n \<Rightarrow> n)"

definition age_days :: "real \<Rightarrow> repo \<Rightarrow> real" where
  "age_days now r = max 1 ((now - created_at r) / 86400)"

definition since_push_days :: "real \<Rightarrow> repo \<Rightarrow> real" where
  "since_push_days now r = max 0 ((now - pushed_at r) / 86400)"

definition stars_per_day :: "int \<Rightarrow> real \<Rightarrow> real" where
  "stars_per_day s age = of_int s / age"

definition z_score :: "real \<Rightarrow> real \<Rightarrow> int \<Rightarrow> error + real" where
  "z_score spd push forks =
     (case math_log10 (spd + 0.01) of
        Inl e \<Rightarrow> Inl e
      | Inr l1 \<Rightarrow>
          (case math_log10 (of_int forks + 1) of
             Inl e \<Rightarrow> Inl e
           | Inr l2 \<Rightarrow> Inr (0.9 * l1 - 0.25 * push + 0.15 * l2)))"

definition p_breakout :: "real \<Rightarrow> real \<Rightarrow> int \<Rightarrow> error + real" where
  "p_breakout spd push forks =
     (case z_score spd push forks of
        Inl e \<Rightarrow> Inl e
      | Inr z \<Rightarrow>
          (case logistic z of
             Inl e \<Rightarrow> Inl e
           | Inr l \<Rightarrow> Inr (clamp l 0 1)))"

definition breakout_threshold :: "int \<Rightarrow> int" where
  "breakout_threshold s = py_int (max 200 (0.5 * of_int s))"

definition growth_multiplier :: "real \<Rightarrow> real" where
  "growth_multiplier p = b64 (b64 0.8 + b64 (b64 0.6 * p))"

definition stars_pred :: "int \<Rightarrow> real \<Rightarrow> real \<Rightarrow> int" where
  "stars_pred s spd p = py_round (of_int s + 7 * spd * growth_multiplier p)"

definition band_raw :: "int \<Rightarrow> real \<Rightarrow> real" where
  "band_raw thr p = b64 (b64 (0.25 * b64 (of_int thr)) * b64 (1.0 - p))"

definition band :: "int \<Rightarrow> real \<Rightarrow> int" where
  "band thr p = py_round (max 25 (band_raw thr p))"

definition low :: "int \<Rightarrow> int \<Rightarrow> int" where
  "low sp b = max 0 (sp - b)"

definition high :: "int \<Rightarrow> int \<Rightarrow> int" where
  "high sp b = sp + b"

definition predict_repo :: "real \<Rightarrow> repo \<Rightarrow> error + prediction" where
  "predict_repo now r =
     (let s = get_int (stargazers_count r) 0;
          forks = get_int (forks_count r) 0;
          issues = get_int (open_issues_count r) 0;
          lang = (case gh_language r of
                    None \<Rightarrow> ''Unknown''
                  | Some l \<Rightarrow> if l = [] then ''Unknown'' else l);
          age = age_days now r;
          push = since_push_days now r;
          spd = stars_per_day s age
      in case p_breakout spd push forks of
           Inl e \<Rightarrow> Inl e
         | Inr p \<Rightarrow>
             (let thr = breakout_threshold s;
                  sp = stars_pred s spd p;
                  b = band thr p
              in Inr \<lparr> date_utc = date_of now,
                       full_name = gh_full_name r,
                       html_url = gh_html_url r,
                       stars_now = s,
                       breakout_threshold_7d = thr,
                       p_breakout_7d = py_round_nd p 4,
                       stars_pred_7d = sp,
                       stars_pred_low_7d = low sp b,
                       stars_pred_high_7d = high sp b,
                       features = \<lparr> f_age_days = py_round_nd age 3,
                                    f_since_push_days = py_round_nd push 3,
                                    f_stars_per_day = py_round_nd spd 3,
                                    f_forks_now = forks,
                                    f_issues_now = issues,
                                    f_language = lang \<rparr>,
                       model_type = ''heuristic_logistic_v1'' \<rparr>))"

text \<open>The loop itself: the first exception ends the run.\<close>

fun predictions :: "real \<Rightarrow> repo list \<Rightarrow> prediction list \<Rightarrow> error + prediction list" where
  "predictions now [] acc = Inr acc"
| "predictions now (r # rs) acc =
     (case predict_repo now r of
        Inl e \<Rightarrow> Inl e
      | Inr p \<Rightarrow> predictions now rs (acc @ [p]))"

section \<open>scripts/score.py\<close>

text \<open>
  The telemetry provider answers a repository name with its object, or with a status
  that \<open>raise_for_status\<close> turns into an exception (\<open>None\<close>).
\<close>

type_synonym provider = "string \<Rightarrow> repo option"

definition gh_get :: "provider \<Rightarrow> string \<Rightarrow> error + repo" where
  "gh_get api name = (case api name of None \<Rightarrow> Inl HTTPError | Some r \<Rightarrow> Inr r)"

definition brier :: "real \<Rightarrow> int \<Rightarrow> real" where
  "brier p y = (p - of_int y) ^ 2"

text \<open>
  A row of the outcome ledger and the summary of a run. Their keys carry the prefixes
  \<open>row_\<close> and \<open>sum_\<close>, since several of them are keys of a prediction too.
\<close>

record outcome =
  row_prediction_date_utc :: int
  row_scored_date_utc :: int
  row_full_name :: string
  row_html_url :: string
  row_stars_at_prediction :: int
  row_stars_after_7d :: int
  row_delta_stars :: int
  row_breakout_threshold :: int
  row_breakout_actual :: int
  row_p_breakout_7d :: real
  row_brier_score :: real
  row_stars_pred_7d :: int
  row_abs_error_stars :: int
  row_model :: string

record summary =
  sum_prediction_date_utc :: int
  sum_scored_date_utc :: int
  sum_n :: nat
  sum_mean_brier :: real
  sum_mean_mae_stars :: real

datatype csv_line = Header "string list" | Row outcome

datatype message =
    NoPredictionsFile int
  | Scored nat int
  | Means real real
  | AppendedTo
  | Wrote int

text \<open>
  The files the script reads and writes: the prediction batches and the summaries by
  date, the outcome ledger (\<open>None\<close> while \<open>outcomes.csv\<close> does not exist), and what
  was printed.
\<close>

record files =
  predictions_json :: "int \<Rightarrow> prediction list option"
  outcomes_csv :: "csv_line list option"
  summary_json :: "int \<Rightarrow> summary option"
  stdout :: "message list"

definition fieldnames :: "string list" where
  "fieldnames =
     [''prediction_date_utc'', ''scored_date_utc'', ''full_name'', ''html_url'',
      ''stars_at_prediction'', ''stars_after_7d'', ''delta_stars'', ''breakout_threshold'',
      ''breakout_actual'', ''p_breakout_7d'', ''brier_score'', ''stars_pred_7d'',
      ''abs_error_stars'', ''model'']"

text \<open>
  The body of the loop over \<open>preds\<close>: the fetch, then the row, \<open>bs\<close> and \<open>ae\<close>
  computed from the prediction and the fetched repository object.
\<close>

definition score_repo :: "int \<Rightarrow> int \<Rightarrow> prediction \<Rightarrow> repo \<Rightarrow> outcome \<times> real \<times> int" where
  "score_repo target_date scored_date p r =
     (let stars_then = get_int (stargazers_count r) 0;
          stars_at_pred = stars_now p;
          delta = stars_then - stars_at_pred;
          threshold = breakout_threshold_7d p;
          y = (if delta \<ge> threshold then 1 else 0);
          prob = p_breakout_7d p;
          bs = brier prob y;
          sp = stars_pred_7d p;
          ae = \<bar>stars_then - sp\<bar>
      in (\<lparr> row_prediction_date_utc = target_date,
              row_scored_date_utc = scored_date,
              row_full_name = full_name p,
              row_html_url = html_url p,
              row_stars_at_prediction = stars_at_pred,
              row_stars_after_7d = stars_then,
              row_delta_stars = delta,
              row_breakout_threshold = threshold,
              row_breakout_actual = y,
              row_p_breakout_7d = prob,
              row_brier_score = py_round_nd bs 6,
              row_stars_pred_7d = sp,
              row_abs_error_stars = ae,
              row_model = model_type p \<rparr>, bs, ae))"

definition score_one ::
  "provider \<Rightarrow> int \<Rightarrow> int \<Rightarrow> prediction \<Rightarrow> error + (outcome \<times> real \<times> int)" where
  "score_one api target_date scored_date p =
     (case gh_get api (full_name p) of
        Inl e \<Rightarrow> Inl e
      | Inr r \<Rightarrow> Inr (score_repo target_date scored_date p r))"

text \<open>The loop, with its three accumulators; an exception of a fetch ends it.\<close>

fun score_loop ::
  "provider \<Rightarrow> int \<Rightarrow> int \<Rightarrow> prediction list \<Rightarrow> outcome list \<Rightarrow> real list \<Rightarrow> int list
     \<Rightarrow> error + (outcome list \<times> real list \<times> int list)" where
  "score_loop api td sd [] rows brier_scores abs_errors = Inr (rows, brier_scores, abs_errors)"
| "score_loop api td sd (p # ps) rows brier_scores abs_errors =
     (case score_one api td sd p of
        Inl e \<Rightarrow> Inl e
      | Inr (row, bs, ae) \<Rightarrow>
          score_loop api td sd ps (rows @ [row]) (brier_scores @ [bs]) (abs_errors @ [ae]))"

definition mean_brier_of :: "real list \<Rightarrow> real" where
  "mean_brier_of brier_scores = sum_list brier_scores / of_nat (max 1 (length brier_scores))"

definition mean_mae_of :: "int list \<Rightarrow> real" where
  "mean_mae_of abs_errors = of_int (sum_list abs_errors) / of_nat (max 1 (length abs_errors))"

text \<open>
  \<open>main\<close>: the result (an exception or normal completion) and the files afterwards.
  Opening the ledger for appending creates it; \<open>rows[0]\<close> raises \<open>IndexError\<close> on an
  empty list.
\<close>

definition score_main :: "provider \<Rightarrow> real \<Rightarrow> files \<Rightarrow> (error + unit) \<times> files" where
  "score_main api now s =
     (let target_date = date_of (now - 7 * 86400)
      in case predictions_json s target_date of
           None \<Rightarrow> (Inr (), s\<lparr> stdout := stdout s @ [NoPredictionsFile target_date] \<rparr>)
         | Some preds \<Rightarrow>
             (case score_loop api target_date (date_of now) preds [] [] [] of
                Inl e \<Rightarrow> (Inl e, s)
              | Inr (rows, brier_scores, abs_errors) \<Rightarrow>
                  (let mean_brier = mean_brier_of brier_scores;
                       mean_mae = mean_mae_of abs_errors;
                       old = (case outcomes_csv s of None \<Rightarrow> [] | Some ls \<Rightarrow> ls);
                       s1 = s\<lparr> outcomes_csv := Some old \<rparr>
                   in case rows of
                        [] \<Rightarrow> (Inl IndexError, s1)
                      | _ # _ \<Rightarrow>
                          (let hdr = (case outcomes_csv s of
                                        None \<Rightarrow> [Header fieldnames]
                                      | Some _ \<Rightarrow> []);
                               s2 = s1\<lparr> outcomes_csv := Some (old @ hdr @ map Row rows) \<rparr>;
                               smry = \<lparr> sum_prediction_date_utc = target_date,
                                        sum_scored_date_utc = date_of now,
                                        sum_n = length rows,
                                        sum_mean_brier = py_round_nd mean_brier 6,
                                        sum_mean_mae_stars = py_round_nd mean_mae 3 \<rparr>;
                               s3 = s2\<lparr> summary_json := (summary_json s2)(target_date \<mapsto> smry) \<rparr>
                           in (Inr (),
                               s3\<lparr> stdout := stdout s3 @
                                     [Scored (length rows) target_date,
                                      Means mean_brier mean_mae,
                                      AppendedTo,
                                      Wrote target_date] \<rparr>)))))"

section \<open>Example inputs\<close>

definition example_repo :: repo where
  "example_repo =
     \<lparr> gh_full_name = ''octo/rocket'', gh_html_url = ''https://github.com/octo/rocket'',
       stargazers_count = Some 1000, forks_count = Some 50, open_issues_count = Some 3,
       gh_language = Some ''Python'', created_at = 0, pushed_at = 864000 \<rparr>"

definition example_prediction :: prediction where
  "example_prediction =
     \<lparr> date_utc = 3, full_name = ''octo/rocket'',
       html_url = ''https://github.com/octo/rocket'',
       stars_now = 1000, breakout_threshold_7d = 500, p_breakout_7d = 0.8866,
       stars_pred_7d = 1932, stars_pred_low_7d = 1907, stars_pred_high_7d = 1957,
       features = \<lparr> f_age_days = 10, f_since_push_days = 0, f_stars_per_day = 100,
                    f_forks_now = 50, f_issues_now = 3, f_language = ''Python'' \<rparr>,
       model_type = ''heuristic_logistic_v1'' \<rparr>"

definition example_api :: provider where
  "example_api name =
     (if name = ''octo/rocket'' then Some (example_repo\<lparr> stargazers_count := Some 1600 \<rparr>)
      else if name = ''octo/bare'' then Some (example_repo\<lparr> stargazers_count := None \<rparr>)
      else None)"

definition example_files :: "prediction list \<Rightarrow> files" where
  "example_files batch =
     \<lparr> predictions_json = (\<lambda>d. if d = 3 then Some batch else None),
       outcomes_csv = None,
       summary_json = (\<lambda>d. None),
       stdout = [] \<rparr>"

section \<open>Rounding and truncation\<close>

lemma py_int_nonneg: "0 \<le> x \<Longrightarrow> py_int x = \<lfloor>x\<rfloor>"
  by (simp add: py_int_def)

lemma breakout_threshold_floor: "breakout_threshold s = max 200 (s div 2)"
proof -
  have m: "(0::real) \<le> max 200 (0.5 * of_int s)" by simp
  have "\<lfloor>max (200::real) (0.5 * of_int s)\<rfloor> = max 200 \<lfloor>(0.5::real) * of_int s\<rfloor>"
    by (simp add: max_def le_floor_iff floor_less_iff)
  moreover have "\<lfloor>(0.5::real) * of_int s\<rfloor> = s div 2"
    using floor_divide_of_int_eq[of s 2, where ?'a = real] by simp
  ultimately show ?thesis
    unfolding breakout_threshold_def py_int_nonneg[OF m] by simp
qed

lemma py_round_of_int: "py_round (of_int n) = n"
  by (simp add: py_round_def)

lemma py_round_eqI: "of_int n - 1/2 < x \<Longrightarrow> x < of_int n + 1/2 \<Longrightarrow> py_round x = n"
  unfolding py_round_def Let_def by (auto; linarith)

lemma py_round_ge: "of_int n \<le> x \<Longrightarrow> n \<le> py_round x"
  unfolding py_round_def Let_def by (auto simp: le_floor_iff; linarith)

lemma py_round_le: "x \<le> of_int n \<Longrightarrow> py_round x \<le> n"
  unfolding py_round_def Let_def by (auto; linarith)


lemma py_round_half: "py_round (of_int n + 1 / 2) = (if even n then n else n + 1)"
proof -
  have "\<lfloor>real_of_int n + 1 / 2\<rfloor> = n" by linarith
  then show ?thesis by (simp add: py_round_def)
qed

lemma py_round_mono: "x \<le> y \<Longrightarrow> py_round x \<le> py_round y"
proof -
  assume xy: "x \<le> y"
  have fx: "\<lfloor>x\<rfloor> \<le> \<lfloor>y\<rfloor>" using xy by (rule floor_mono)
  show ?thesis
  proof (cases "\<lfloor>x\<rfloor> = \<lfloor>y\<rfloor>")
    case True
    then show ?thesis using xy unfolding py_round_def Let_def by auto
  next
    case False
    with fx have "\<lfloor>x\<rfloor> + 1 \<le> \<lfloor>y\<rfloor>" by simp
    moreover have "py_round x \<le> \<lfloor>x\<rfloor> + 1" unfolding py_round_def Let_def by auto
    moreover have "\<lfloor>y\<rfloor> \<le> py_round y" unfolding py_round_def Let_def by auto
    ultimately show ?thesis by linarith
  qed
qed

lemma py_round_close: "\<bar>of_int (py_round x) - x\<bar> \<le> 1 / 2"
  unfolding py_round_def Let_def by (auto; linarith)

lemma py_round_minus: "py_round (- x) = - py_round x"
proof (cases "x = of_int \<lfloor>x\<rfloor>")
  case True
  then obtain n where "x = of_int n" by blast
  then have "py_round x = n" "py_round (- x) = - n"
    using py_round_of_int[of n] py_round_of_int[of "- n"] by simp_all
  then show ?thesis by simp
next
  case False
  then have lt: "of_int \<lfloor>x\<rfloor> < x" using of_int_floor_le[of x] by linarith
  have fl: "\<lfloor>- x\<rfloor> = - \<lfloor>x\<rfloor> - 1"
    by (rule floor_unique) (use lt in \<open>simp; linarith\<close>)+
  show ?thesis
    unfolding py_round_def Let_def fl using lt by (auto; linarith)
qed

section \<open>Rounding to binary64\<close>

text \<open>
  \<open>b64\<close> is odd and monotone, its relative error is at most \<open>1 / 2 ^ 53\<close>, and it
  leaves every \<open>m * 2 ^ k\<close> with \<open>\<bar>m\<bar> < 2 ^ 53\<close> unchanged.
\<close>

lemma expo_bounds:
  assumes "x \<noteq> 0"
  shows "2 powr of_int (expo x) \<le> \<bar>x\<bar>" and "\<bar>x\<bar> < 2 powr (of_int (expo x) + 1)"
  using floor_log_eq_powr_iff[of "\<bar>x\<bar>" 2 "expo x"] assms by (simp_all add: expo_def)

lemma expo_eqI:
  assumes "2 powr of_int e \<le> \<bar>x\<bar>" "\<bar>x\<bar> < 2 powr (of_int e + 1)"
  shows "expo x = e"
proof -
  have "0 < \<bar>x\<bar>" using assms(1) powr_gt_zero[of 2 "of_int e"] by linarith
  then show ?thesis
    using floor_log_eq_powr_iff[of "\<bar>x\<bar>" 2 e] assms by (simp add: expo_def)
qed

lemma expo_minus: "expo (- x) = expo x"
  by (simp add: expo_def)

lemma ulp_pos: "0 < ulp x"
  by (simp add: ulp_def)

lemma ulp_minus: "ulp (- x) = ulp x"
  by (simp add: ulp_def expo_minus)

lemma ulp_expo: "2 powr of_int (expo x) = 2 ^ 52 * ulp x"
proof -
  have "ulp x = 2 powr (of_int (expo x) - 52)" by (simp add: ulp_def)
  also have "\<dots> = 2 powr of_int (expo x) / 2 powr 52" by (rule powr_diff)
  finally show ?thesis by simp
qed

lemma b64_minus: "b64 (- x) = - b64 x"
  by (simp add: b64_def ulp_minus py_round_minus)

lemma b64_err: "\<bar>b64 x - x\<bar> \<le> \<bar>x\<bar> / 2 ^ 53"
proof (cases "x = 0")
  case True
  then show ?thesis by (simp add: b64_def)
next
  case False
  have u: "0 < ulp x" by (rule ulp_pos)
  have "b64 x - x = (of_int (py_round (x / ulp x)) - x / ulp x) * ulp x"
    using False u by (simp add: b64_def field_simps)
  then have "\<bar>b64 x - x\<bar> = \<bar>of_int (py_round (x / ulp x)) - x / ulp x\<bar> * ulp x"
    using u by (simp add: abs_mult)
  also have "\<dots> \<le> 1 / 2 * ulp x"
    using py_round_close[of "x / ulp x"] u by (simp add: mult_right_mono)
  also have "\<dots> = 2 powr of_int (expo x) / 2 ^ 53"
    by (simp add: ulp_expo)
  also have "\<dots> \<le> \<bar>x\<bar> / 2 ^ 53"
    using expo_bounds(1)[OF False] by (simp add: divide_right_mono)
  finally show ?thesis .
qed

lemma b64_pos_bounds:
  assumes "0 < x"
  shows "2 powr of_int (expo x) \<le> b64 x" and "b64 x \<le> 2 powr (of_int (expo x) + 1)"
proof -
  have u: "0 < ulp x" by (rule ulp_pos)
  have x0: "x \<noteq> 0" using assms by simp
  have b: "b64 x = of_int (py_round (x / ulp x)) * ulp x"
    using x0 by (simp add: b64_def)
  note e = ulp_expo[of x]
  have e1: "2 powr (of_int (expo x) + 1) = 2 ^ 53 * ulp x"
    by (simp add: powr_add e)
  have "2 ^ 52 * ulp x \<le> x" "x < 2 ^ 53 * ulp x"
    using expo_bounds[OF x0] assms unfolding e e1 by simp_all
  then have "of_int (2 ^ 52) \<le> x / ulp x" "x / ulp x \<le> of_int (2 ^ 53)"
    using u by (simp_all add: pos_le_divide_eq pos_divide_le_eq)
  then have "2 ^ 52 \<le> py_round (x / ulp x)" "py_round (x / ulp x) \<le> 2 ^ 53"
    by (simp_all only: py_round_ge py_round_le)
  then have "real_of_int (2 ^ 52) \<le> of_int (py_round (x / ulp x))"
    and "real_of_int (py_round (x / ulp x)) \<le> of_int (2 ^ 53)"
    by (simp_all only: of_int_le_iff)
  then have "real_of_int (2 ^ 52) * ulp x \<le> of_int (py_round (x / ulp x)) * ulp x"
    and "real_of_int (py_round (x / ulp x)) * ulp x \<le> of_int (2 ^ 53) * ulp x"
    using u by (simp_all only: mult_right_mono less_imp_le)
  then show "2 powr of_int (expo x) \<le> b64 x" and "b64 x \<le> 2 powr (of_int (expo x) + 1)"
    unfolding e e1 b by simp_all
qed

lemma b64_nonneg: "0 \<le> x \<Longrightarrow> 0 \<le> b64 x"
proof (cases "x = 0")
  case True
  then show ?thesis by (simp add: b64_def)
next
  case False
  assume "0 \<le> x"
  with False have "0 < x" by simp
  from b64_pos_bounds(1)[OF this] powr_gt_zero[of 2 "of_int (expo x)"] show ?thesis
    by linarith
qed

lemma b64_mono_pos:
  assumes "0 < x" "x \<le> y"
  shows "b64 x \<le> b64 y"
proof -
  have y: "0 < y" using assms by linarith
  have "log 2 x \<le> log 2 y" using assms by simp
  then have le: "expo x \<le> expo y"
    using assms y by (simp add: expo_def floor_mono)
  show ?thesis
  proof (cases "expo x = expo y")
    case True
    then have uu: "ulp x = ulp y" by (simp add: ulp_def)
    have u: "0 < ulp y" by (rule ulp_pos)
    have "x / ulp y \<le> y / ulp y" using assms u by (simp add: divide_right_mono)
    then have "py_round (x / ulp y) \<le> py_round (y / ulp y)" by (rule py_round_mono)
    then have "real_of_int (py_round (x / ulp y)) \<le> real_of_int (py_round (y / ulp y))"
      by (simp only: of_int_le_iff)
    then have "real_of_int (py_round (x / ulp y)) * ulp y
                 \<le> real_of_int (py_round (y / ulp y)) * ulp y"
      using u by (simp only: mult_right_mono less_imp_le)
    then show ?thesis
      using assms y by (simp add: b64_def uu)
  next
    case False
    with le have "expo x + 1 \<le> expo y" by simp
    then have "real_of_int (expo x + 1) \<le> real_of_int (expo y)"
      by (simp only: of_int_le_iff)
    then have "(2::real) powr (of_int (expo x) + 1) \<le> 2 powr of_int (expo y)"
      by simp
    with b64_pos_bounds(2)[OF assms(1)] b64_pos_bounds(1)[OF y] show ?thesis
      by linarith
  qed
qed

lemma b64_mono: "x \<le> y \<Longrightarrow> b64 x \<le> b64 y"
proof -
  assume xy: "x \<le> y"
  consider "0 < x" | "x \<le> 0" "0 \<le> y" | "y < 0" by linarith
  then show ?thesis
  proof cases
    case 1
    then show ?thesis using xy by (rule b64_mono_pos)
  next
    case 2
    have "0 \<le> b64 (- x)" using 2(1) by (simp add: b64_nonneg)
    then have "b64 x \<le> 0" by (simp add: b64_minus)
    moreover have "0 \<le> b64 y" using 2(2) by (rule b64_nonneg)
    ultimately show ?thesis by linarith
  next
    case 3
    then have "0 < - y" "- y \<le> - x" using xy by simp_all
    then have "b64 (- y) \<le> b64 (- x)" by (rule b64_mono_pos)
    then show ?thesis by (simp add: b64_minus)
  qed
qed

lemma b64_dyadic:
  assumes "\<bar>m\<bar> < 2 ^ 53"
  shows "b64 (of_int m * 2 powr of_int k) = of_int m * 2 powr of_int k"
proof (cases "m = 0")
  case True
  then show ?thesis by (simp add: b64_def)
next
  case False
  define x :: real where "x = of_int m * 2 powr of_int k"
  have x0: "x \<noteq> 0" using False by (simp add: x_def)
  have ax: "\<bar>x\<bar> = of_int \<bar>m\<bar> * 2 powr of_int k" by (simp add: x_def abs_mult)
  have "real_of_int \<bar>m\<bar> < of_int (2 ^ 53)" using assms by (simp only: of_int_less_iff)
  then have "\<bar>x\<bar> < 2 ^ 53 * 2 powr of_int k"
    unfolding ax by (simp add: mult_strict_right_mono)
  also have "\<dots> = 2 powr (of_int (53 + k))"
    by (simp add: powr_add)
  finally have "2 powr of_int (expo x) < (2::real) powr of_int (53 + k)"
    using expo_bounds(1)[OF x0] by linarith
  then have "expo x < 53 + k" by simp
  then have j: "0 \<le> k - (expo x - 52)" by simp
  define j where "j = nat (k - (expo x - 52))"
  have "real_of_int k = real j + real_of_int (expo x - 52)"
    using j by (simp add: j_def)
  then have "(2::real) powr of_int k = 2 powr real j * 2 powr of_int (expo x - 52)"
    by (simp only: powr_add)
  then have p: "(2::real) powr of_int k = 2 ^ j * ulp x"
    by (simp add: powr_realpow ulp_def)
  have "x = of_int m * 2 powr of_int k" by (fact x_def)
  also have "\<dots> = of_int m * (2 ^ j * ulp x)" by (simp only: p)
  also have "\<dots> = of_int (m * 2 ^ j) * ulp x" by simp
  finally have s: "x = of_int (m * 2 ^ j) * ulp x" .
  have u0: "ulp x \<noteq> 0" using ulp_pos[of x] by simp
  from s have "x / ulp x = of_int (m * 2 ^ j) * ulp x / ulp x"
    by (rule arg_cong[where f = "\<lambda>t. t / ulp x"])
  then have "x / ulp x = of_int (m * 2 ^ j)"
    using nonzero_mult_div_cancel_right[OF u0, of "of_int (m * 2 ^ j)"] by simp
  then have "py_round (x / ulp x) = m * 2 ^ j"
    by (simp only: py_round_of_int)
  then have "b64 x = of_int (m * 2 ^ j) * ulp x"
    using x0 by (simp add: b64_def)
  from this s[symmetric] have "b64 x = x" by (rule trans)
  then show ?thesis unfolding x_def .
qed

lemma b64_int: "\<bar>m\<bar> < 2 ^ 53 \<Longrightarrow> b64 (of_int m) = of_int m"
  using b64_dyadic[of m 0] by simp

lemma b64_0: "b64 0 = 0"
  by (simp add: b64_def)

lemma b64_1: "b64 1 = 1"
  using b64_int[of 1] by simp

lemma b64_half: "b64 (1 / 2) = 1 / 2"
  using b64_dyadic[of 1 "- 1"] by (simp add: powr_minus)

lemma b64_unit: "0 \<le> x \<Longrightarrow> x \<le> 1 \<Longrightarrow> 0 \<le> b64 x \<and> b64 x \<le> 1"
  using b64_mono[of x 1] b64_nonneg[of x] by (simp add: b64_1)

lemma b64_err_bounds:
  assumes "0 \<le> x" "x \<le> B"
  shows "x - B / 2 ^ 53 \<le> b64 x" and "b64 x \<le> x + B / 2 ^ 53"
proof -
  have "\<bar>x\<bar> / 2 ^ 53 \<le> B / 2 ^ 53" using assms by (simp add: divide_right_mono)
  with b64_err[of x] have "\<bar>b64 x - x\<bar> \<le> B / 2 ^ 53" by (rule order_trans)
  then show "x - B / 2 ^ 53 \<le> b64 x" and "b64 x \<le> x + B / 2 ^ 53"
    by (simp_all only: abs_le_iff) linarith+
qed

lemma b64_gap:
  assumes "0 \<le> x" "x \<le> B" "0 \<le> y" "y \<le> B" "2 * B / 2 ^ 53 < y - x"
  shows "b64 x < b64 y"
proof -
  have "b64 x \<le> x + B / 2 ^ 53" using assms(1,2) by (rule b64_err_bounds)
  moreover have "y - B / 2 ^ 53 \<le> b64 y" using assms(3,4) by (rule b64_err_bounds)
  moreover have "2 * B / 2 ^ 53 = B / 2 ^ 53 + B / 2 ^ 53" by simp
  ultimately show ?thesis using assms(5) by linarith
qed

lemma b64_in_half_one:
  assumes "1 / 2 \<le> x" "x < 1"
  shows "b64 x = of_int (py_round (x * 2 ^ 53)) / 2 ^ 53"
proof -
  have e: "expo x = - 1"
    by (rule expo_eqI) (use assms in \<open>simp_all add: powr_minus\<close>)
  have u: "ulp x = 1 / 2 ^ 53"
    by (simp add: ulp_def e powr_minus inverse_eq_divide)
  have "x \<noteq> 0" using assms by simp
  then show ?thesis by (simp add: b64_def u)
qed

lemma b64_one_minus_tiny:
  assumes "0 \<le> p" "p \<le> 1 / 2 ^ 55"
  shows "b64 (1 - p) = 1"
proof (cases "p = 0")
  case True
  then show ?thesis by (simp add: b64_1)
next
  case False
  with assms have p: "0 < p" by simp
  have "1 / 2 \<le> 1 - p" "1 - p < 1" using assms p by simp_all
  then have "b64 (1 - p) = of_int (py_round ((1 - p) * 2 ^ 53)) / 2 ^ 53"
    by (rule b64_in_half_one)
  moreover have "py_round ((1 - p) * 2 ^ 53) = 2 ^ 53"
    by (rule py_round_eqI) (use assms p in simp_all)
  ultimately show ?thesis by simp
qed

lemma b64_absorb:
  assumes "1 / 2 \<le> x" "x < 1" "0 \<le> t" "t \<le> 1 / 2 ^ 60" "b64 x + t < 1"
  shows "b64 (b64 x + t) = b64 x"
proof -
  define m where "m = py_round (x * 2 ^ 53)"
  have c: "b64 x = of_int m / 2 ^ 53"
    using b64_in_half_one[OF assms(1,2)] by (simp add: m_def)
  have "b64 (1 / 2) \<le> b64 x" using assms(1) by (rule b64_mono)
  then have "1 / 2 \<le> b64 x + t" using assms(3) by (simp add: b64_half)
  then have "b64 (b64 x + t) = of_int (py_round ((b64 x + t) * 2 ^ 53)) / 2 ^ 53"
    using assms(5) by (rule b64_in_half_one)
  moreover have "py_round ((b64 x + t) * 2 ^ 53) = m"
    by (rule py_round_eqI) (use assms(3,4) in \<open>simp_all add: c distrib_right\<close>)
  ultimately show ?thesis by (simp add: c)
qed

section \<open>Bounds on the exponential\<close>

lemma exp_le_3: "exp (1::real) \<le> 3"
  by (rule exp_le)

lemma exp_taylor4:
  fixes y :: real
  assumes "0 \<le> y" "y \<le> 1"
  shows "1 + y + y ^ 2 / 2 + y ^ 3 / 6 \<le> exp y"
    and "exp y \<le> 1 + y + y ^ 2 / 2 + y ^ 3 / 6 + y ^ 4 / 8"
proof -
  from Maclaurin_exp_le[of y 4] obtain t where
    t: "\<bar>t\<bar> \<le> \<bar>y\<bar>" and e: "exp y = (\<Sum>m<4. y ^ m / fact m) + exp t / fact 4 * y ^ 4"
    by blast
  have s: "(\<Sum>m<4. y ^ m / fact m) = 1 + y + y ^ 2 / 2 + y ^ 3 / 6"
    by (simp add: lessThan_nat_numeral lessThan_Suc fact_numeral numeral_eq_Suc)
  have f: "fact 4 = (24::real)" by (simp add: fact_numeral)
  have "t \<le> 1" using t assms by linarith
  then have "exp t \<le> exp 1" by simp
  then have et: "exp t \<le> 3" using exp_le_3 by linarith
  have y4: "0 \<le> y ^ 4" using assms by simp
  have "0 \<le> exp t / 24 * y ^ 4" using y4 by simp
  then show "1 + y + y ^ 2 / 2 + y ^ 3 / 6 \<le> exp y" unfolding e s f by linarith
  have "exp t * y ^ 4 \<le> 3 * y ^ 4" using et y4 by (rule mult_right_mono)
  then have "exp t / 24 * y ^ 4 \<le> y ^ 4 / 8" by simp
  then show "exp y \<le> 1 + y + y ^ 2 / 2 + y ^ 3 / 6 + y ^ 4 / 8" unfolding e s f by linarith
qed

lemma ln_2_bounds: "0.6931 \<le> ln (2::real) \<and> ln (2::real) \<le> 0.7"
proof -
  let ?y = "0.6931 / 16 :: real"
  have "exp ?y \<le> 1 + ?y + ?y ^ 2 / 2 + ?y ^ 3 / 6 + ?y ^ 4 / 8"
    by (rule exp_taylor4) simp_all
  then have "exp ?y ^ 16 \<le> (1 + ?y + ?y ^ 2 / 2 + ?y ^ 3 / 6 + ?y ^ 4 / 8) ^ 16"
    by (rule power_mono) simp
  moreover have "exp (0.6931::real) = exp ?y ^ 16"
    using exp_of_nat_mult[of 16 ?y] by simp
  moreover have "(1 + ?y + ?y ^ 2 / 2 + ?y ^ 3 / 6 + ?y ^ 4 / 8) ^ 16 \<le> (2::real)"
    by (simp add: power_divide)
  ultimately have "exp (0.6931::real) \<le> 2" by linarith
  then have lo: "0.6931 \<le> ln (2::real)" by (subst ln_ge_iff) simp_all
  have "(2::real) \<le> 1 + 0.7 + 0.7 ^ 2 / 2 + 0.7 ^ 3 / 6" by (simp add: power_divide)
  also have "\<dots> \<le> exp 0.7" by (rule exp_taylor4) simp_all
  finally have "ln (2::real) \<le> ln (exp 0.7)" by (simp del: ln_exp)
  then have "ln (2::real) \<le> 0.7" by simp
  with lo show ?thesis by simp
qed

lemma exp_le_float_max:
  assumes "x \<le> 709"
  shows "exp x \<le> float_max"
proof -
  have "0.6931 \<le> ln (2::real)" using ln_2_bounds by (rule conjunct1)
  then have "x \<le> 1023 * ln 2" using assms by simp
  then have "exp x \<le> exp (of_nat 1023 * ln 2)" by simp
  also have "\<dots> = 2 ^ 1023" by (simp only: exp_of_nat_mult) simp
  also have "\<dots> \<le> float_max" by (simp add: float_max_def)
  finally show ?thesis .
qed

lemma float_max_less_exp:
  assumes "716.8 \<le> x"
  shows "float_max < exp x"
proof -
  have "float_max < 2 ^ 1024" by (simp add: float_max_def)
  also have "\<dots> = exp (of_nat 1024 * ln 2)" by (simp only: exp_of_nat_mult) simp
  also have "\<dots> \<le> exp x"
  proof -
    have "ln (2::real) \<le> 0.7" using ln_2_bounds by (rule conjunct2)
    then have "of_nat 1024 * ln 2 \<le> x" using assms by simp
    then show ?thesis by (simp only: exp_le_cancel_iff)
  qed
  finally show ?thesis .
qed

section \<open>The breakout model\<close>

lemma clamp_unit: "0 \<le> clamp x 0 1 \<and> clamp x 0 1 \<le> 1"
  by (simp add: clamp_def)

lemma logistic_cases:
  "logistic z = Inl OverflowError \<or> logistic z = Inr (1 / (1 + exp (- z)))"
  by (simp add: logistic_def math_exp_def)

lemma logistic_Inr:
  assumes "- z \<le> 709"
  shows "logistic z = Inr (1 / (1 + exp (- z)))"
proof -
  have "exp (- z) \<le> float_max" using assms by (rule exp_le_float_max)
  then show ?thesis by (simp add: logistic_def math_exp_def)
qed

lemma logistic_overflow:
  assumes "716.8 \<le> - z"
  shows "logistic z = Inl OverflowError"
proof -
  have "float_max < exp (- z)" using assms by (rule float_max_less_exp)
  then show ?thesis by (simp add: logistic_def math_exp_def)
qed

lemma logistic_unit:
  assumes "logistic z = Inr l"
  shows "0 < l \<and> l < 1"
proof -
  from assms logistic_cases[of z] have l: "l = 1 / (1 + exp (- z))" by auto
  have "0 < exp (- z)" by simp
  then show ?thesis unfolding l by (simp add: add_pos_pos)
qed

lemma log10_hundredth: "log 10 (1 / 100 :: real) = - 2"
  using log_inverse[of 10 100] log_pow_cancel[of 10 2] by (simp add: log_divide)

text \<open>
  The argument of \<open>math.exp\<close> in \<open>logistic\<close> is \<open>- z\<close>; for a non-negative star
  rate and fork count it is at most \<open>1.8 + 0.25 * since_push_days\<close>.
\<close>

lemma z_score_lower_bound:
  assumes "0 \<le> spd" "0 \<le> forks"
  shows "\<exists>z. z_score spd push forks = Inr z \<and> - z \<le> 1.8 + 0.25 * push"
proof -
  have a: "- 2 \<le> log 10 (spd + 0.01)"
  proof -
    have "log 10 (0.01) \<le> log 10 (spd + 0.01)" using assms(1) by simp
    then show ?thesis by (simp add: log10_hundredth)
  qed
  have b: "0 \<le> log 10 (of_int forks + 1)"
    using assms(2) by simp
  have "z_score spd push forks =
          Inr (0.9 * log 10 (spd + 0.01) - 0.25 * push + 0.15 * log 10 (of_int forks + 1))"
    using assms by (simp add: z_score_def math_log10_def)
  with a b show ?thesis by simp
qed

lemma p_breakout_Inr:
  assumes "0 \<le> spd" "0 \<le> forks" "push \<le> 2828"
  shows "\<exists>p. p_breakout spd push forks = Inr p"
proof -
  from z_score_lower_bound[OF assms(1,2), of push] obtain z where
    z: "z_score spd push forks = Inr z" and b: "- z \<le> 1.8 + 0.25 * push"
    by blast
  from b assms(3) have "- z \<le> 709" by simp
  from logistic_Inr[OF this] z show ?thesis by (simp add: p_breakout_def)
qed


lemma p_breakout_range: "p_breakout spd push forks = Inr p \<Longrightarrow> 0 \<le> p \<and> p \<le> 1"
  using clamp_unit by (auto simp: p_breakout_def split: sum.splits)

text \<open>
  The error branch is taken: a repository with no stars and no forks whose last push is
  2860 days old or older makes \<open>math.exp\<close> overflow.
\<close>

lemma p_breakout_overflow:
  assumes "2860 \<le> push"
  shows "p_breakout 0 push 0 = Inl OverflowError"
proof -
  have z: "z_score 0 push 0 = Inr (0.9 * log 10 0.01 - 0.25 * push + 0.15 * log 10 1)"
    by (simp add: z_score_def math_log10_def)
  have "716.8 \<le> - (0.9 * log 10 0.01 - 0.25 * push + 0.15 * log 10 1)"
    using assms by (simp add: log10_hundredth)
  from logistic_overflow[OF this] z show ?thesis by (simp add: p_breakout_def)
qed

lemma stars_per_day_nonneg: "0 \<le> s \<Longrightarrow> 0 < age \<Longrightarrow> 0 \<le> stars_per_day s age"
  by (simp add: stars_per_day_def)

lemma age_days_ge_1: "1 \<le> age_days now r"
  by (simp add: age_days_def)

lemma predict_repo_InrD:
  assumes "predict_repo now r = Inr pr"
  shows "\<exists>p. p_breakout (stars_per_day (stars_now pr) (age_days now r))
                (since_push_days now r) (get_int (forks_count r) 0) = Inr p
            \<and> stars_now pr = get_int (stargazers_count r) 0
            \<and> breakout_threshold_7d pr = breakout_threshold (stars_now pr)
            \<and> p_breakout_7d pr = py_round_nd p 4
            \<and> stars_pred_7d pr =
                stars_pred (stars_now pr) (stars_per_day (stars_now pr) (age_days now r)) p
            \<and> stars_pred_low_7d pr = low (stars_pred_7d pr) (band (breakout_threshold_7d pr) p)
            \<and> stars_pred_high_7d pr = high (stars_pred_7d pr) (band (breakout_threshold_7d pr) p)"
  using assms by (auto simp: predict_repo_def Let_def split: sum.splits)

lemma predict_repo_total:
  assumes "0 \<le> get_int (stargazers_count r) 0" "0 \<le> get_int (forks_count r) 0"
    and "since_push_days now r \<le> 2828"
  shows "\<exists>pr. predict_repo now r = Inr pr"
proof -
  have "0 < age_days now r" using age_days_ge_1[of now r] by linarith
  then have "0 \<le> stars_per_day (get_int (stargazers_count r) 0) (age_days now r)"
    using assms(1) by (rule stars_per_day_nonneg[rotated])
  from p_breakout_Inr[OF this assms(2,3)] show ?thesis
    by (auto simp: predict_repo_def Let_def)
qed

lemma breakout_threshold_ge_200: "200 \<le> breakout_threshold s"
  by (simp add: breakout_threshold_floor)

lemma band_ge_25: "25 \<le> band thr p"
  unfolding band_def by (rule py_round_ge) simp

text \<open>
  The two subexpressions computed in binary64: monotone in the probability, strictly so
  across a gap of \<open>1 / 2 ^ 48\<close>, constant on probabilities below \<open>1 / 2 ^ 60\<close>,
  and within \<open>1 / 2 ^ 50\<close> of the exact value of the multiplier.
\<close>

lemma b64_06: "1 / 2 \<le> b64 0.6 \<and> b64 0.6 \<le> 1"
  using b64_mono[of "1 / 2" "0.6"] b64_mono[of "0.6" 1] by (simp add: b64_half b64_1)

lemma b64_08: "1 / 2 \<le> b64 0.8 \<and> b64 0.8 \<le> 7 / 8"
proof -
  have "b64 (7 / 8) = 7 / 8"
    using b64_dyadic[of 7 "- 3"] by (simp add: powr_minus)
  then show ?thesis
    using b64_mono[of "1 / 2" "0.8"] b64_mono[of "0.8" "7 / 8"] by (simp add: b64_half)
qed

lemma quarter_threshold_pos:
  assumes "200 \<le> thr"
  shows "50 \<le> b64 (0.25 * b64 (of_int thr))"
proof -
  have "b64 (of_int 200) \<le> b64 (of_int thr)"
    using assms by (intro b64_mono) simp
  then have "200 \<le> b64 (of_int thr)" using b64_int[of 200] by simp
  then have "b64 (of_int 50) \<le> b64 (0.25 * b64 (of_int thr))"
    by (intro b64_mono) simp
  then show ?thesis using b64_int[of 50] by simp
qed

lemma growth_multiplier_mono: "p1 \<le> p2 \<Longrightarrow> growth_multiplier p1 \<le> growth_multiplier p2"
proof -
  assume "p1 \<le> p2"
  moreover have "0 \<le> b64 0.6" using b64_06 by linarith
  ultimately have "b64 0.6 * p1 \<le> b64 0.6 * p2" by (rule mult_left_mono)
  then have "b64 (b64 0.6 * p1) \<le> b64 (b64 0.6 * p2)" by (rule b64_mono)
  then show ?thesis unfolding growth_multiplier_def by (intro b64_mono) simp
qed

lemma band_raw_antimono:
  assumes "200 \<le> thr" "p1 \<le> p2"
  shows "band_raw thr p2 \<le> band_raw thr p1"
proof -
  have "b64 (1 - p2) \<le> b64 (1 - p1)" using assms(2) by (intro b64_mono) simp
  moreover have "0 \<le> b64 (0.25 * b64 (of_int thr))"
    using quarter_threshold_pos[OF assms(1)] by linarith
  ultimately have "b64 (0.25 * b64 (of_int thr)) * b64 (1 - p2)
                     \<le> b64 (0.25 * b64 (of_int thr)) * b64 (1 - p1)"
    by (rule mult_left_mono)
  then show ?thesis unfolding band_raw_def by (simp add: b64_mono)
qed

lemma growth_multiplier_strict:
  assumes "0 \<le> p1" "p1 + 1 / 2 ^ 48 \<le> p2" "p2 \<le> 1"
  shows "growth_multiplier p1 < growth_multiplier p2"
proof -
  define a where "a = b64 0.6"
  define c where "c = b64 0.8"
  have a: "1 / 2 \<le> a" "a \<le> 1" using b64_06 by (simp_all add: a_def)
  have c: "1 / 2 \<le> c" "c \<le> 1" using b64_08 by (simp_all add: c_def)
  have p1: "p1 \<le> 1" and p2: "0 \<le> p2" using assms by simp_all
  have y1: "0 \<le> a * p1" "a * p1 \<le> 1"
    using a assms(1) p1 by (simp_all add: mult_le_one)
  have y2: "0 \<le> a * p2" "a * p2 \<le> 1"
    using a p2 assms(3) by (simp_all add: mult_le_one)
  have "1 / 2 * (p2 - p1) \<le> a * (p2 - p1)"
    using a(1) assms(2) by (intro mult_right_mono) simp_all
  then have d: "1 / 2 ^ 49 \<le> a * p2 - a * p1"
    using assms(2) by (simp add: right_diff_distrib)
  have t1: "0 \<le> b64 (a * p1)" "b64 (a * p1) \<le> 1" using b64_unit[OF y1] by simp_all
  have t2: "0 \<le> b64 (a * p2)" "b64 (a * p2) \<le> 1" using b64_unit[OF y2] by simp_all
  have "7 / 2 ^ 52 \<le> b64 (a * p2) - b64 (a * p1)"
    using b64_err_bounds(2)[OF y1] b64_err_bounds(1)[OF y2] d by simp
  then have "2 * 2 / 2 ^ 53 < (c + b64 (a * p2)) - (c + b64 (a * p1))" by simp
  moreover have "0 \<le> c + b64 (a * p1)" "c + b64 (a * p1) \<le> 2"
    "0 \<le> c + b64 (a * p2)" "c + b64 (a * p2) \<le> 2"
    using c t1 t2 by simp_all
  ultimately have "b64 (c + b64 (a * p1)) < b64 (c + b64 (a * p2))"
    by (intro b64_gap[where B = 2]) 
  then show ?thesis by (simp add: growth_multiplier_def a_def c_def)
qed

lemma band_raw_strict:
  assumes "200 \<le> thr" "0 \<le> p1" "p1 + 1 / 2 ^ 48 \<le> p2" "p2 \<le> 1"
  shows "band_raw thr p2 < band_raw thr p1"
proof -
  define C where "C = b64 (0.25 * b64 (of_int thr))"
  have C: "0 < C" using quarter_threshold_pos[OF assms(1)] by (simp add: C_def)
  have q1: "0 \<le> 1 - p1" "1 - p1 \<le> 1" and q2: "0 \<le> 1 - p2" "1 - p2 \<le> 1"
    using assms by simp_all
  have r1: "0 \<le> b64 (1 - p1)" "b64 (1 - p1) \<le> 1" using b64_unit[OF q1] by simp_all
  have r2: "0 \<le> b64 (1 - p2)" "b64 (1 - p2) \<le> 1" using b64_unit[OF q2] by simp_all
  have d: "15 / 2 ^ 52 \<le> b64 (1 - p1) - b64 (1 - p2)"
    using b64_err_bounds(1)[OF q1] b64_err_bounds(2)[OF q2] assms(3) by simp
  have "C * (15 / 2 ^ 52) \<le> C * (b64 (1 - p1) - b64 (1 - p2))"
    using C d by (intro mult_left_mono) simp_all
  moreover have "2 * C / 2 ^ 53 < C * (15 / 2 ^ 52)" using C by simp
  ultimately have g: "2 * C / 2 ^ 53 < C * b64 (1 - p1) - C * b64 (1 - p2)"
    by (simp add: right_diff_distrib)
  have "0 \<le> C * b64 (1 - p2)" "C * b64 (1 - p2) \<le> C"
    "0 \<le> C * b64 (1 - p1)" "C * b64 (1 - p1) \<le> C"
    using C r1 r2 by (simp_all add: mult_left_le)
  then have "b64 (C * b64 (1 - p2)) < b64 (C * b64 (1 - p1))"
    using g by (intro b64_gap[where B = C])
  then show ?thesis by (simp add: band_raw_def C_def)
qed

lemma growth_multiplier_plateau:
  assumes "0 \<le> p" "p \<le> 1 / 2 ^ 60"
  shows "growth_multiplier p = b64 0.8"
proof -
  have a: "0 \<le> b64 0.6" "b64 0.6 \<le> 1" using b64_06 by simp_all
  have "0 \<le> b64 0.6 * p" using a(1) assms(1) by simp
  then have t0: "0 \<le> b64 (b64 0.6 * p)" by (rule b64_nonneg)
  have "b64 0.6 * p \<le> 1 * p" using a(2) assms(1) by (rule mult_right_mono)
  then have "b64 0.6 * p \<le> 1 / 2 ^ 60" using assms(2) by simp
  then have "b64 (b64 0.6 * p) \<le> b64 (1 / 2 ^ 60)" by (rule b64_mono)
  moreover have "b64 (1 / 2 ^ 60) = 1 / 2 ^ 60"
    using b64_dyadic[of 1 "- 60"] by (simp add: powr_minus inverse_eq_divide)
  ultimately have t1: "b64 (b64 0.6 * p) \<le> 1 / 2 ^ 60" by simp
  have "b64 0.8 + b64 (b64 0.6 * p) < 1" using b64_08 t1 by simp
  then show ?thesis
    unfolding growth_multiplier_def by (intro b64_absorb t0 t1) simp_all
qed

lemma band_raw_plateau:
  assumes "0 \<le> p" "p \<le> 1 / 2 ^ 55"
  shows "band_raw thr p = b64 (b64 (0.25 * b64 (of_int thr)))"
  by (simp add: band_raw_def b64_one_minus_tiny[OF assms])

lemma growth_multiplier_close:
  assumes "0 \<le> p" "p \<le> 1"
  shows "0.8 + 0.6 * p - 1 / 2 ^ 50 \<le> growth_multiplier p"
    and "growth_multiplier p \<le> 0.8 + 0.6 * p + 1 / 2 ^ 50"
proof -
  define a where "a = b64 0.6"
  define c where "c = b64 0.8"
  have a: "0.6 - 1 / 2 ^ 53 \<le> a" "a \<le> 0.6 + 1 / 2 ^ 53"
    using b64_err_bounds[of "0.6" 1] by (simp_all add: a_def)
  have c: "0.8 - 1 / 2 ^ 53 \<le> c" "c \<le> 0.8 + 1 / 2 ^ 53"
    using b64_err_bounds[of "0.8" 1] by (simp_all add: c_def)
  have a01: "0 \<le> a" "a \<le> 1" using b64_06 by (simp_all add: a_def)
  have y: "0 \<le> a * p" "a * p \<le> 1" using a01 assms by (simp_all add: mult_le_one)
  have "(0.6 - 1 / 2 ^ 53) * p \<le> a * p" "a * p \<le> (0.6 + 1 / 2 ^ 53) * p"
    using a assms(1) by (simp_all only: mult_right_mono)
  then have ap: "0.6 * p - 1 / 2 ^ 53 \<le> a * p" "a * p \<le> 0.6 * p + 1 / 2 ^ 53"
    using assms by (simp_all add: algebra_simps) 
  have t: "a * p - 1 / 2 ^ 53 \<le> b64 (a * p)" "b64 (a * p) \<le> a * p + 1 / 2 ^ 53"
    using b64_err_bounds[OF y] by simp_all
  have t01: "0 \<le> b64 (a * p)" "b64 (a * p) \<le> 1" using b64_unit[OF y] by simp_all
  have w: "0 \<le> c + b64 (a * p)" "c + b64 (a * p) \<le> 2"
    using c t01 b64_08 by (simp_all add: c_def)
  have g: "c + b64 (a * p) - 2 / 2 ^ 53 \<le> b64 (c + b64 (a * p))"
    "b64 (c + b64 (a * p)) \<le> c + b64 (a * p) + 2 / 2 ^ 53"
    using b64_err_bounds[OF w] by simp_all
  have gm: "growth_multiplier p = b64 (c + b64 (a * p))"
    by (simp add: growth_multiplier_def a_def c_def)
  show "0.8 + 0.6 * p - 1 / 2 ^ 50 \<le> growth_multiplier p"
    unfolding gm using g(1) t(1) ap(1) c(1) by simp
  show "growth_multiplier p \<le> 0.8 + 0.6 * p + 1 / 2 ^ 50"
    unfolding gm using g(2) t(2) ap(2) c(2) by simp
qed

lemma band_raw_500_small:
  assumes "7 / 8 \<le> p" "p \<le> 1"
  shows "band_raw 500 p \<le> 16"
proof -
  have C: "b64 (0.25 * b64 (of_int 500)) = 125"
    using b64_int[of 500] b64_int[of 125] by simp
  have "b64 (1 - p) \<le> b64 (1 / 8)" using assms(1) by (intro b64_mono) simp
  moreover have "b64 (1 / 8) = 1 / 8"
    using b64_dyadic[of 1 "- 3"] by (simp add: powr_minus inverse_eq_divide)
  ultimately have "125 * b64 (1 - p) \<le> of_int 16" by simp
  then have "b64 (125 * b64 (1 - p)) \<le> b64 (of_int 16)" by (rule b64_mono)
  then show ?thesis using C b64_int[of 16] by (simp add: band_raw_def)
qed

lemma band_500_half: "band 500 (1 / 2) = 62"
proof -
  have C: "b64 (0.25 * b64 (of_int 500)) = 125"
    using b64_int[of 500] b64_int[of 125] by simp
  have h: "b64 (125 * (1 / 2)) = 125 * (1 / 2)"
    using b64_dyadic[of 125 "- 1"] by (simp add: powr_minus inverse_eq_divide)
  have "band_raw 500 (1 / 2) = of_int 62 + 1 / 2"
    using C h by (simp add: band_raw_def b64_half)
  then have "max 25 (band_raw 500 (1 / 2)) = of_int 62 + 1 / 2" by simp
  then show ?thesis unfolding band_def by (simp only: py_round_half) simp
qed

lemma band_500_nine_tenths: "band 500 (9 / 10) = 25"
proof -
  have "band_raw 500 (9 / 10) \<le> 16" by (rule band_raw_500_small) simp_all
  then have "max 25 (band_raw 500 (9 / 10)) = of_int 25" by simp
  then show ?thesis unfolding band_def by (simp only: py_round_of_int)
qed

lemma growth_multiplier_nonneg:
  assumes "0 \<le> p"
  shows "0 \<le> growth_multiplier p"
proof -
  have "0 \<le> b64 0.6 * p" using b64_06 assms by simp
  then have "0 \<le> b64 (b64 0.6 * p)" by (rule b64_nonneg)
  then have "0 \<le> b64 0.8 + b64 (b64 0.6 * p)" using b64_08 by simp
  then show ?thesis unfolding growth_multiplier_def by (rule b64_nonneg)
qed

lemma stars_pred_nonneg:
  assumes "0 \<le> s" "0 \<le> spd" "0 \<le> p"
  shows "0 \<le> stars_pred s spd p"
  unfolding stars_pred_def
  by (rule py_round_ge) (use assms growth_multiplier_nonneg[OF assms(3)] in simp)

section \<open>Claims about the breakout model\<close>

text \<open>
  Claim C1, as stated: the threshold equals \<open>max(200, round(0.5 * stars_now))\<close> and is
  at least \<open>0.5 * stars_now\<close>. It fails at \<open>stars_now = 403\<close>: the code truncates
  201.5 to 201, rounding gives 202, and 201 is below 201.5.
\<close>

theorem threshold_not_rounded_counterexample:
  "breakout_threshold 403 \<noteq> max 200 (py_round (0.5 * of_int 403))
   \<and> real_of_int (breakout_threshold 403) < 0.5 * of_int 403"
proof -
  have "py_round (of_int 201 + 1 / 2) = 202"
    by (simp only: py_round_half) simp
  then show ?thesis by (simp add: breakout_threshold_floor)
qed

text \<open>
  Claim C1, amended. The threshold is \<open>max(200, stars_now div 2)\<close>, half the star count
  truncated to an integer; it is at least 200 and at least \<open>0.5 * stars_now - 0.5\<close>,
  and it is the value recorded in the prediction.
\<close>

theorem threshold_truncated:
  "breakout_threshold s = max 200 (s div 2)
   \<and> 200 \<le> breakout_threshold s
   \<and> 0.5 * real_of_int s - 1 / 2 \<le> real_of_int (breakout_threshold s)
   \<and> (predict_repo now r = Inr pr \<longrightarrow>
        breakout_threshold_7d pr = breakout_threshold (stars_now pr))"
proof -
  have "s \<le> 2 * (s div 2) + 1" by presburger
  then have "s \<le> 2 * max 200 (s div 2) + 1" by linarith
  then have "real_of_int s \<le> real_of_int (2 * max 200 (s div 2) + 1)"
    by (simp only: of_int_le_iff)
  then have "0.5 * real_of_int s - 1 / 2 \<le> real_of_int (max 200 (s div 2))"
    by simp
  moreover have "predict_repo now r = Inr pr \<longrightarrow>
        breakout_threshold_7d pr = breakout_threshold (stars_now pr)"
    using predict_repo_InrD[of now r pr] by blast
  ultimately show ?thesis
    by (simp add: breakout_threshold_floor)
qed

theorem threshold_truncated_witness:
  "\<exists>pr. predict_repo 864000 example_repo = Inr pr
        \<and> breakout_threshold_7d pr = breakout_threshold (stars_now pr)
        \<and> breakout_threshold (stars_now pr) = max 200 (stars_now pr div 2)"
proof -
  obtain pr where pr: "predict_repo 864000 example_repo = Inr pr"
    using predict_repo_total[of example_repo 864000]
    by (auto simp: example_repo_def get_int_def since_push_days_def)
  with threshold_truncated[of "stars_now pr" 864000 example_repo pr] show ?thesis
    by simp
qed



text \<open>
  Claim C3. Every prediction produced for a repository with a non-negative star count
  has \<open>stars_pred_low_7d \<le> stars_pred_7d \<le> stars_pred_high_7d\<close> and
  \<open>stars_pred_low_7d \<ge> 0\<close>.
\<close>

theorem forecast_interval_ordered:
  assumes "predict_repo now r = Inr pr" "0 \<le> stars_now pr"
  shows "stars_pred_low_7d pr \<le> stars_pred_7d pr
         \<and> stars_pred_7d pr \<le> stars_pred_high_7d pr
         \<and> 0 \<le> stars_pred_low_7d pr"
proof -
  from predict_repo_InrD[OF assms(1)] obtain p where
    p: "p_breakout (stars_per_day (stars_now pr) (age_days now r))
          (since_push_days now r) (get_int (forks_count r) 0) = Inr p"
    and sp: "stars_pred_7d pr =
               stars_pred (stars_now pr) (stars_per_day (stars_now pr) (age_days now r)) p"
    and lo: "stars_pred_low_7d pr = low (stars_pred_7d pr) (band (breakout_threshold_7d pr) p)"
    and hi: "stars_pred_high_7d pr = high (stars_pred_7d pr) (band (breakout_threshold_7d pr) p)"
    by blast
  have "0 < age_days now r" using age_days_ge_1[of now r] by linarith
  then have "0 \<le> stars_per_day (stars_now pr) (age_days now r)"
    using assms(2) by (simp add: stars_per_day_nonneg)
  moreover have "0 \<le> p" using p_breakout_range[OF p] by simp
  ultimately have "0 \<le> stars_pred_7d pr"
    unfolding sp using assms(2) by (simp add: stars_pred_nonneg)
  moreover have "25 \<le> band (breakout_threshold_7d pr) p" by (rule band_ge_25)
  ultimately show ?thesis unfolding lo hi low_def high_def by simp
qed

theorem forecast_interval_ordered_witness:
  "\<exists>pr. predict_repo 864000 example_repo = Inr pr \<and> 0 \<le> stars_now pr
        \<and> stars_pred_low_7d pr \<le> stars_pred_7d pr
        \<and> stars_pred_7d pr \<le> stars_pred_high_7d pr
        \<and> 0 \<le> stars_pred_low_7d pr"
proof -
  obtain pr where pr: "predict_repo 864000 example_repo = Inr pr"
    using predict_repo_total[of example_repo 864000]
    by (auto simp: example_repo_def get_int_def since_push_days_def)
  from predict_repo_InrD[OF pr] have s: "0 \<le> stars_now pr"
    by (auto simp: example_repo_def get_int_def)
  from forecast_interval_ordered[OF pr s] pr s show ?thesis by blast
qed

text \<open>
  Claim C8, as stated: a larger probability gives a strictly smaller pre-rounding band
  value and a strictly larger growth multiplier. It fails in binary64 for the
  probabilities 5.8e-20 and 7.0e-19 of a repository with no stars (threshold 200): both
  give the pre-rounding band value 50, and both give the same growth multiplier (the
  float nearest to 0.8).
\<close>

theorem band_and_multiplier_ties_counterexample:
  "(5.8 / 10 ^ 20 :: real) < 7 / 10 ^ 19
   \<and> band_raw (breakout_threshold 0) (5.8 / 10 ^ 20) = 50
   \<and> band_raw (breakout_threshold 0) (7 / 10 ^ 19) = 50
   \<and> growth_multiplier (5.8 / 10 ^ 20) = growth_multiplier (7 / 10 ^ 19)"
proof -
  have thr: "breakout_threshold 0 = 200" by (simp add: breakout_threshold_floor)
  have q: "b64 (b64 (0.25 * b64 (of_int 200))) = 50"
    using b64_int[of 200] b64_int[of 50] by simp
  have "band_raw 200 (5.8 / 10 ^ 20) = 50"
    using band_raw_plateau[of "5.8 / 10 ^ 20" 200] q by simp
  moreover have "band_raw 200 (7 / 10 ^ 19) = 50"
    using band_raw_plateau[of "7 / 10 ^ 19" 200] q by simp
  moreover have "growth_multiplier (5.8 / 10 ^ 20) = b64 0.8"
    by (rule growth_multiplier_plateau) simp_all
  moreover have "growth_multiplier (7 / 10 ^ 19) = b64 0.8"
    by (rule growth_multiplier_plateau) simp_all
  ultimately show ?thesis unfolding thr by simp
qed

text \<open>
  Claim C8, amended. With the star count (hence the threshold) fixed, a larger
  probability never gives a larger pre-rounding band value nor a smaller growth
  multiplier, and both change strictly when the probability grows by at least
  \<open>1 / 2 ^ 48\<close> inside the interval from 0 to 1. The band is the pre-rounding value,
  floored at 25 and rounded; it never grows, and once the pre-rounding value is at or
  below 25 the band is 25 and stays 25.
\<close>

theorem band_and_multiplier_weakly_monotone:
  assumes "p1 \<le> p2"
  shows "band_raw (breakout_threshold s) p2 \<le> band_raw (breakout_threshold s) p1
         \<and> growth_multiplier p1 \<le> growth_multiplier p2
         \<and> (0 \<le> p1 \<and> p1 + 1 / 2 ^ 48 \<le> p2 \<and> p2 \<le> 1 \<longrightarrow>
              band_raw (breakout_threshold s) p2 < band_raw (breakout_threshold s) p1
              \<and> growth_multiplier p1 < growth_multiplier p2)
         \<and> band (breakout_threshold s) p1 = py_round (max 25 (band_raw (breakout_threshold s) p1))
         \<and> band (breakout_threshold s) p2 = py_round (max 25 (band_raw (breakout_threshold s) p2))
         \<and> band (breakout_threshold s) p2 \<le> band (breakout_threshold s) p1
         \<and> (band_raw (breakout_threshold s) p1 \<le> 25 \<longrightarrow>
              band (breakout_threshold s) p1 = 25 \<and> band (breakout_threshold s) p2 = 25)"
proof -
  have t: "200 \<le> breakout_threshold s" by (rule breakout_threshold_ge_200)
  have raw: "band_raw (breakout_threshold s) p2 \<le> band_raw (breakout_threshold s) p1"
    using t assms by (rule band_raw_antimono)
  have gm: "growth_multiplier p1 \<le> growth_multiplier p2"
    using assms by (rule growth_multiplier_mono)
  have strict: "band_raw (breakout_threshold s) p2 < band_raw (breakout_threshold s) p1
                \<and> growth_multiplier p1 < growth_multiplier p2"
    if "0 \<le> p1 \<and> p1 + 1 / 2 ^ 48 \<le> p2 \<and> p2 \<le> 1"
    using that band_raw_strict[OF t, of p1 p2] growth_multiplier_strict[of p1 p2] by simp
  have "max 25 (band_raw (breakout_threshold s) p2)
          \<le> max 25 (band_raw (breakout_threshold s) p1)"
    using raw by simp
  then have mono: "band (breakout_threshold s) p2 \<le> band (breakout_threshold s) p1"
    unfolding band_def by (rule py_round_mono)
  have fl: "band (breakout_threshold s) p1 = 25 \<and> band (breakout_threshold s) p2 = 25"
    if "band_raw (breakout_threshold s) p1 \<le> 25"
  proof -
    have "max 25 (band_raw (breakout_threshold s) p1) = of_int 25"
      and "max 25 (band_raw (breakout_threshold s) p2) = of_int 25"
      using that raw by simp_all
    then show ?thesis unfolding band_def by (simp only: py_round_of_int)
  qed
  from raw gm strict mono fl show ?thesis by (simp add: band_def)
qed

theorem band_and_multiplier_weakly_monotone_witness:
  "(1 / 2 :: real) \<le> 9 / 10
   \<and> band_raw (breakout_threshold 1000) (9 / 10) < band_raw (breakout_threshold 1000) (1 / 2)
   \<and> growth_multiplier (1 / 2) < growth_multiplier (9 / 10)
   \<and> band (breakout_threshold 1000) (9 / 10) \<le> band (breakout_threshold 1000) (1 / 2)
   \<and> band (breakout_threshold 1000) (1 / 2) = 62
   \<and> band (breakout_threshold 1000) (9 / 10) = 25"
proof -
  have thr: "breakout_threshold 1000 = 500" by (simp add: breakout_threshold_floor)
  from band_and_multiplier_weakly_monotone[of "1 / 2" "9 / 10" 1000]
    band_500_half band_500_nine_tenths
  show ?thesis unfolding thr by simp
qed

section \<open>The scoring engine\<close>

lemma score_one_None: "api (full_name p) = None \<Longrightarrow> score_one api td sd p = Inl HTTPError"
  by (simp add: score_one_def gh_get_def)

lemma score_one_Inl: "score_one api td sd p = Inl e \<Longrightarrow> e = HTTPError"
  by (auto simp: score_one_def gh_get_def split: option.splits)

lemma score_one_Some:
  "api (full_name p) = Some r \<Longrightarrow> score_one api td sd p = Inr (score_repo td sd p r)"
  by (simp add: score_one_def gh_get_def)

lemma score_one_InrD:
  "score_one api td sd p = Inr t \<Longrightarrow>
     \<exists>r. api (full_name p) = Some r \<and> t = score_repo td sd p r"
  by (auto simp: score_one_def gh_get_def split: option.splits)

lemma score_loop_fetch_fails:
  assumes "p \<in> set ps" "api (full_name p) = None"
  shows "score_loop api td sd ps rows bss aes = Inl HTTPError"
  using assms
proof (induction ps arbitrary: rows bss aes)
  case Nil
  then show ?case by simp
next
  case (Cons q ps)
  show ?case
  proof (cases "score_one api td sd q")
    case (Inl e)
    then show ?thesis using score_one_Inl[OF Inl] by simp
  next
    case (Inr t)
    then have "q \<noteq> p"
      using score_one_None[where api = api and p = p and td = td and sd = sd] Cons.prems(2)
      by auto
    with Cons.prems have "p \<in> set ps" by simp
    from Cons.IH[OF this Cons.prems(2)] Inr show ?thesis
      by (simp split: prod.splits)
  qed
qed

lemma score_loop_Inr:
  assumes "score_loop api td sd ps rows bss aes = Inr (rows', bss', aes')"
  shows "\<exists>res. list_all2 (\<lambda>p t. score_one api td sd p = Inr t) ps res
               \<and> rows' = rows @ map fst res
               \<and> bss' = bss @ map (\<lambda>t. fst (snd t)) res
               \<and> aes' = aes @ map (\<lambda>t. snd (snd t)) res"
  using assms
proof (induction ps arbitrary: rows bss aes)
  case Nil
  then show ?case by simp
next
  case (Cons q ps)
  from Cons.prems obtain row bs ae where
    q: "score_one api td sd q = Inr (row, bs, ae)"
    and rest: "score_loop api td sd ps (rows @ [row]) (bss @ [bs]) (aes @ [ae])
                 = Inr (rows', bss', aes')"
    by (auto split: sum.splits)
  from Cons.IH[OF rest] obtain res where
    res: "list_all2 (\<lambda>p t. score_one api td sd p = Inr t) ps res"
      "rows' = (rows @ [row]) @ map fst res"
      "bss' = (bss @ [bs]) @ map (\<lambda>t. fst (snd t)) res"
      "aes' = (aes @ [ae]) @ map (\<lambda>t. snd (snd t)) res"
    by blast
  show ?case
    by (rule exI[of _ "(row, bs, ae) # res"]) (use q res in simp)
qed

lemma score_repo_fields:
  assumes "score_repo td sd p r = (row, bs, ae)"
  shows "row_stars_after_7d row = get_int (stargazers_count r) 0
         \<and> row_stars_at_prediction row = stars_now p
         \<and> row_delta_stars row = row_stars_after_7d row - stars_now p
         \<and> row_breakout_actual row =
             (if breakout_threshold_7d p \<le> row_delta_stars row then 1 else 0)
         \<and> bs = (p_breakout_7d p - of_int (row_breakout_actual row)) ^ 2
         \<and> row_brier_score row = py_round_nd bs 6
         \<and> ae = \<bar>row_stars_after_7d row - stars_pred_7d p\<bar>
         \<and> row_abs_error_stars row = ae"
  using assms by (auto simp: score_repo_def Let_def brier_def)

lemma score_repo_name:
  "score_repo td sd p r = (row, bs, ae) \<Longrightarrow> row_full_name row = full_name p"
  by (auto simp: score_repo_def Let_def)

lemma score_loop_nth:
  assumes "score_loop api td sd preds [] [] [] = Inr (rows, bss, aes)"
    and "i < length preds"
  shows "length rows = length preds"
    and "\<exists>r. api (full_name (preds ! i)) = Some r
             \<and> score_repo td sd (preds ! i) r = (rows ! i, bss ! i, aes ! i)"
proof -
  from score_loop_Inr[OF assms(1)] obtain res where
    res: "list_all2 (\<lambda>p t. score_one api td sd p = Inr t) preds res"
    and rows: "rows = map fst res"
    and bss: "bss = map (\<lambda>t. fst (snd t)) res"
    and aes: "aes = map (\<lambda>t. snd (snd t)) res"
    by auto
  have len: "length res = length preds" using res by (simp add: list_all2_lengthD)
  then show "length rows = length preds" by (simp add: rows)
  have one: "score_one api td sd (preds ! i) = Inr (res ! i)"
    using res assms(2) by (simp add: list_all2_conv_all_nth)
  from score_one_InrD[OF one] obtain r where
    r: "api (full_name (preds ! i)) = Some r" and t: "res ! i = score_repo td sd (preds ! i) r"
    by blast
  have "i < length res" using len assms(2) by simp
  then have "score_repo td sd (preds ! i) r = (rows ! i, bss ! i, aes ! i)"
    using t by (simp add: rows bss aes)
  with r show "\<exists>r. api (full_name (preds ! i)) = Some r
             \<and> score_repo td sd (preds ! i) r = (rows ! i, bss ! i, aes ! i)"
    by blast
qed

lemma score_main_scores_batch:
  assumes "predictions_json s (date_of (now - 7 * 86400)) = Some preds"
    and "score_loop api (date_of (now - 7 * 86400)) (date_of now) preds [] [] []
           = Inr (rows, bss, aes)"
    and "rows \<noteq> []"
  shows "fst (score_main api now s) = Inr ()"
    and "outcomes_csv (snd (score_main api now s)) =
           Some (case outcomes_csv s of
                   None \<Rightarrow> Header fieldnames # map Row rows
                 | Some ls \<Rightarrow> ls @ map Row rows)"
    and "summary_json (snd (score_main api now s)) (date_of (now - 7 * 86400)) =
           Some \<lparr> sum_prediction_date_utc = date_of (now - 7 * 86400),
                  sum_scored_date_utc = date_of now,
                  sum_n = length rows,
                  sum_mean_brier = py_round_nd (mean_brier_of bss) 6,
                  sum_mean_mae_stars = py_round_nd (mean_mae_of aes) 3 \<rparr>"
  using assms
  by (auto simp: score_main_def Let_def split: list.splits option.splits)

text \<open>
  Claim C4. For a prediction batch with zero elements both means are zero (the division
  is floored at 1), but the run does not complete: building the ledger writer reads
  \<open>rows[0]\<close> and raises \<open>IndexError\<close>, so no summary is written and nothing is
  printed.
\<close>

theorem empty_batch_raises:
  assumes "predictions_json s (date_of (now - 7 * 86400)) = Some []"
  shows "mean_brier_of [] = 0 \<and> mean_mae_of [] = 0
         \<and> fst (score_main api now s) = Inl IndexError
         \<and> summary_json (snd (score_main api now s)) = summary_json s
         \<and> stdout (snd (score_main api now s)) = stdout s"
  using assms
  by (simp add: score_main_def Let_def mean_brier_of_def mean_mae_of_def)

theorem empty_batch_raises_witness:
  "fst (score_main example_api (10 * 86400) (example_files [])) = Inl IndexError
   \<and> summary_json (snd (score_main example_api (10 * 86400) (example_files []))) 3 = None
   \<and> stdout (snd (score_main example_api (10 * 86400) (example_files []))) = []"
proof -
  have d: "date_of (10 * 86400 - 7 * 86400) = 3" by (simp add: date_of_def)
  have "predictions_json (example_files []) (date_of (10 * 86400 - 7 * 86400)) = Some []"
    unfolding d by (simp add: example_files_def)
  from empty_batch_raises[OF this, of example_api] show ?thesis
    by (simp add: example_files_def)
qed

text \<open>
  Claim C9. When no prediction batch exists for the target date (now minus 7 days), the
  run completes normally, prints that there is nothing to score, appends nothing to the
  outcome ledger and writes no summary.
\<close>

theorem missing_batch_is_noop:
  assumes "predictions_json s (date_of (now - 7 * 86400)) = None"
  shows "score_main api now s =
           (Inr (), s\<lparr> stdout := stdout s @ [NoPredictionsFile (date_of (now - 7 * 86400))] \<rparr>)
         \<and> outcomes_csv (snd (score_main api now s)) = outcomes_csv s
         \<and> summary_json (snd (score_main api now s)) = summary_json s"
  using assms by (simp add: score_main_def Let_def)

theorem missing_batch_is_noop_witness:
  "score_main example_api (11 * 86400) (example_files [example_prediction]) =
     (Inr (), (example_files [example_prediction])\<lparr> stdout := [NoPredictionsFile 4] \<rparr>)"
proof -
  have d: "date_of (11 * 86400 - 7 * 86400) = 4" by (simp add: date_of_def)
  have "predictions_json (example_files [example_prediction])
          (date_of (11 * 86400 - 7 * 86400)) = None"
    unfolding d by (simp add: example_files_def)
  from missing_batch_is_noop[OF this, of example_api] show ?thesis
    unfolding d by (simp add: example_files_def)
qed

text \<open>
  Claim C5, as stated: a repository of the batch that the telemetry provider no longer
  knows is skipped and the rest of the batch is scored. It fails on a batch of two
  predictions whose first repository is gone: the run ends with \<open>HTTPError\<close>, the
  second prediction is not scored, no ledger is created and no summary is written.
\<close>

theorem missing_repo_aborts_counterexample:
  "fst (score_main example_api (10 * 86400)
          (example_files [example_prediction\<lparr> full_name := ''octo/gone'' \<rparr>, example_prediction]))
     = Inl HTTPError
   \<and> outcomes_csv (snd (score_main example_api (10 * 86400)
          (example_files [example_prediction\<lparr> full_name := ''octo/gone'' \<rparr>, example_prediction])))
     = None
   \<and> summary_json (snd (score_main example_api (10 * 86400)
          (example_files [example_prediction\<lparr> full_name := ''octo/gone'' \<rparr>, example_prediction]))) 3
     = None"
proof -
  have d: "date_of (10 * 86400 - 7 * 86400) = 3" by (simp add: date_of_def)
  show ?thesis
    unfolding score_main_def Let_def d
    by (simp add: example_files_def example_api_def example_prediction_def score_one_def
        gh_get_def)
qed

text \<open>
  Claim C5, amended. If the fetch fails for any prediction of the batch, the whole run
  ends with the fetch's exception and leaves every file as it was: no outcome row is
  appended and no summary is written.
\<close>

theorem missing_repo_aborts:
  assumes "predictions_json s (date_of (now - 7 * 86400)) = Some preds"
    and "p \<in> set preds" and "api (full_name p) = None"
  shows "score_main api now s = (Inl HTTPError, s)"
proof -
  have "score_loop api (date_of (now - 7 * 86400)) (date_of now) preds [] [] [] = Inl HTTPError"
    using assms(2,3) by (rule score_loop_fetch_fails[where p = p])
  with assms(1) show ?thesis by (simp add: score_main_def Let_def)
qed

theorem missing_repo_aborts_witness:
  "score_main example_api (10 * 86400)
     (example_files [example_prediction, example_prediction\<lparr> full_name := ''octo/gone'' \<rparr>])
   = (Inl HTTPError,
      example_files [example_prediction, example_prediction\<lparr> full_name := ''octo/gone'' \<rparr>])"
proof -
  let ?gone = "example_prediction\<lparr> full_name := ''octo/gone'' \<rparr>"
  have d: "date_of (10 * 86400 - 7 * 86400) = 3" by (simp add: date_of_def)
  have a: "predictions_json (example_files [example_prediction, ?gone])
          (date_of (10 * 86400 - 7 * 86400)) = Some [example_prediction, ?gone]"
    unfolding d by (simp add: example_files_def)
  have b: "?gone \<in> set [example_prediction, ?gone]" by simp
  have c: "example_api (full_name ?gone) = None" by (simp add: example_api_def)
  from missing_repo_aborts[where api = example_api and p = ?gone, OF a b c] show ?thesis .
qed

lemma score_loop_all_fetched:
  assumes "list_all (\<lambda>q. api (full_name q) \<noteq> None) ps"
  shows "\<exists>rows' bss' aes'. score_loop api td sd ps rows bss aes = Inr (rows', bss', aes')"
  using assms
proof (induction ps arbitrary: rows bss aes)
  case Nil
  then show ?case by simp
next
  case (Cons q ps)
  then obtain r where r: "api (full_name q) = Some r" by auto
  obtain row bs ae where t: "score_repo td sd q r = (row, bs, ae)"
    by (cases "score_repo td sd q r") auto
  from Cons.prems have "list_all (\<lambda>q. api (full_name q) \<noteq> None) ps" by simp
  from Cons.IH[OF this, of "rows @ [row]" "bss @ [bs]" "aes @ [ae]"]
  show ?case
    using score_one_Some[where api = api and p = q and r = r and td = td and sd = sd] r t
    by simp
qed

lemma example_round_brier: "py_round_nd ((0.8866 - 1) ^ 2) 6 = 0.01286"
proof -
  have "py_round ((0.8866 - 1) ^ 2 * 10 ^ 6) = 12860"
    by (rule py_round_eqI) (simp_all add: power2_eq_square)
  then show ?thesis by (simp add: py_round_nd_def)
qed

text \<open>A complete run on a batch of one prediction, whose repository now has 1600 stars.\<close>

lemma score_main_example:
  "score_main example_api (10 * 86400) (example_files [example_prediction]) =
     (Inr (),
      \<lparr> predictions_json = (\<lambda>d. if d = 3 then Some [example_prediction] else None),
        outcomes_csv =
          Some [Header fieldnames,
                Row \<lparr> row_prediction_date_utc = 3, row_scored_date_utc = 10,
                      row_full_name = ''octo/rocket'',
                      row_html_url = ''https://github.com/octo/rocket'',
                      row_stars_at_prediction = 1000, row_stars_after_7d = 1600,
                      row_delta_stars = 600, row_breakout_threshold = 500,
                      row_breakout_actual = 1, row_p_breakout_7d = 0.8866,
                      row_brier_score = 0.01286, row_stars_pred_7d = 1932,
                      row_abs_error_stars = 332, row_model = ''heuristic_logistic_v1'' \<rparr>],
        summary_json =
          (\<lambda>d. None)(3 \<mapsto> \<lparr> sum_prediction_date_utc = 3, sum_scored_date_utc = 10, sum_n = 1,
                              sum_mean_brier = 0.01286, sum_mean_mae_stars = 332 \<rparr>),
        stdout = [Scored 1 3, Means 0.01285956 332, AppendedTo, Wrote 3] \<rparr>)"
proof -
  have d: "date_of (10 * 86400 - 7 * 86400) = 3" "date_of (10 * 86400) = 10"
    by (simp_all add: date_of_def)
  have sq: "(0.8866 - 1 :: real) ^ 2 = 0.01285956" by (simp add: power2_eq_square)
  have r6: "py_round_nd (0.01285956) 6 = 0.01286"
    using example_round_brier unfolding sq .
  have r6': "py_round_nd (321489 / 25000000) 6 = 643 / 50000"
    using r6 by simp
  have "py_round (332 * 10 ^ 3) = 332000"
    using py_round_of_int[of 332000] by simp
  then have r3: "py_round_nd 332 3 = 332" by (simp add: py_round_nd_def)
  have one: "score_one example_api 3 10 example_prediction =
     Inr (\<lparr> row_prediction_date_utc = 3, row_scored_date_utc = 10,
             row_full_name = ''octo/rocket'',
             row_html_url = ''https://github.com/octo/rocket'',
             row_stars_at_prediction = 1000, row_stars_after_7d = 1600,
             row_delta_stars = 600, row_breakout_threshold = 500,
             row_breakout_actual = 1, row_p_breakout_7d = 0.8866,
             row_brier_score = 0.01286, row_stars_pred_7d = 1932,
             row_abs_error_stars = 332, row_model = ''heuristic_logistic_v1'' \<rparr>,
          0.01285956, 332)"
    using r6 unfolding score_one_def gh_get_def score_repo_def Let_def brier_def
    by (simp add: example_api_def example_prediction_def example_repo_def get_int_def
        power2_eq_square)
  show ?thesis
    unfolding score_main_def Let_def d
    by (simp add: example_files_def one mean_brier_of_def mean_mae_of_def r6' r3)
qed

text \<open>
  Claim C6, as stated: the outcome's \<open>brier_score\<close> equals
  \<open>(p_breakout_7d - breakout_actual)\<^sup>2\<close>. It fails for a prediction with probability
  0.8866 whose repository went from 1000 to 1600 stars: the square is 0.01285956 and
  the row records 0.01286.
\<close>

theorem brier_field_rounded_counterexample:
  "score_one example_api 3 10 example_prediction =
     Inr (\<lparr> row_prediction_date_utc = 3, row_scored_date_utc = 10,
             row_full_name = ''octo/rocket'',
             row_html_url = ''https://github.com/octo/rocket'',
             row_stars_at_prediction = 1000, row_stars_after_7d = 1600,
             row_delta_stars = 600, row_breakout_threshold = 500,
             row_breakout_actual = 1, row_p_breakout_7d = 0.8866,
             row_brier_score = 0.01286, row_stars_pred_7d = 1932,
             row_abs_error_stars = 332, row_model = ''heuristic_logistic_v1'' \<rparr>,
          0.01285956, 332)
   \<and> (p_breakout_7d example_prediction - 1) ^ 2 \<noteq> (0.01286 :: real)"
proof -
  have sq: "(0.8866 - 1 :: real) ^ 2 = 0.01285956" by (simp add: power2_eq_square)
  have "py_round_nd (0.01285956) 6 = 0.01286"
    using example_round_brier unfolding sq .
  then show ?thesis
    unfolding score_one_def gh_get_def score_repo_def Let_def brier_def
    by (simp add: example_api_def example_prediction_def example_repo_def get_int_def
        power2_eq_square)
qed

text \<open>
  Claim C6, amended. For every scored prediction the outcome row has
  \<open>delta_stars = stars_after_7d - stars_now\<close>, \<open>breakout_actual\<close> is 1 exactly when
  \<open>delta_stars \<ge> breakout_threshold_7d\<close> and 0 otherwise, the Brier score that enters
  the mean is \<open>(p_breakout_7d - breakout_actual)\<^sup>2\<close> and the row records it rounded to
  six decimal places, and \<open>abs_error_stars = \<bar>stars_after_7d - stars_pred_7d\<bar>\<close>.
\<close>

theorem outcome_fields:
  assumes "score_loop api td sd preds [] [] [] = Inr (rows, bss, aes)"
    and "i < length preds"
  shows "length rows = length preds \<and> length bss = length preds \<and> length aes = length preds
         \<and> (\<exists>r. api (full_name (preds ! i)) = Some r
                \<and> row_stars_after_7d (rows ! i) = get_int (stargazers_count r) 0)
         \<and> row_stars_at_prediction (rows ! i) = stars_now (preds ! i)
         \<and> row_delta_stars (rows ! i) = row_stars_after_7d (rows ! i) - stars_now (preds ! i)
         \<and> row_breakout_actual (rows ! i) =
             (if breakout_threshold_7d (preds ! i) \<le> row_delta_stars (rows ! i) then 1 else 0)
         \<and> bss ! i = (p_breakout_7d (preds ! i) - of_int (row_breakout_actual (rows ! i))) ^ 2
         \<and> row_brier_score (rows ! i) = py_round_nd (bss ! i) 6
         \<and> row_abs_error_stars (rows ! i) =
             \<bar>row_stars_after_7d (rows ! i) - stars_pred_7d (preds ! i)\<bar>
         \<and> aes ! i = row_abs_error_stars (rows ! i)"
proof -
  from score_loop_Inr[OF assms(1)] obtain res where
    res: "list_all2 (\<lambda>p t. score_one api td sd p = Inr t) preds res"
    and rows: "rows = map fst res"
    and bss: "bss = map (\<lambda>t. fst (snd t)) res"
    and aes: "aes = map (\<lambda>t. snd (snd t)) res"
    by auto
  have len: "length res = length preds" using res by (simp add: list_all2_lengthD)
  have one: "score_one api td sd (preds ! i) = Inr (res ! i)"
    using res assms(2) by (simp add: list_all2_conv_all_nth)
  from score_one_InrD[OF one] obtain r where
    r: "api (full_name (preds ! i)) = Some r" and t: "res ! i = score_repo td sd (preds ! i) r"
    by blast
  have i: "i < length res" using len assms(2) by simp
  have "score_repo td sd (preds ! i) r = (rows ! i, bss ! i, aes ! i)"
    using t i by (simp add: rows bss aes)
  from score_repo_fields[OF this] r len show ?thesis
    by (auto simp: rows bss aes)
qed

theorem outcome_fields_witness:
  "\<exists>rows bss aes.
     score_loop example_api 3 10 [example_prediction] [] [] [] = Inr (rows, bss, aes)
     \<and> length rows = 1
     \<and> row_delta_stars (rows ! 0) = row_stars_after_7d (rows ! 0) - 1000
     \<and> row_breakout_actual (rows ! 0) = (if 500 \<le> row_delta_stars (rows ! 0) then 1 else 0)
     \<and> bss ! 0 = (0.8866 - of_int (row_breakout_actual (rows ! 0))) ^ 2
     \<and> row_brier_score (rows ! 0) = py_round_nd (bss ! 0) 6
     \<and> row_abs_error_stars (rows ! 0) = \<bar>row_stars_after_7d (rows ! 0) - 1932\<bar>"
proof -
  have "list_all (\<lambda>q. example_api (full_name q) \<noteq> None) [example_prediction]"
    by (simp add: example_api_def example_prediction_def)
  from score_loop_all_fetched[OF this, of 3 10 "[]" "[]" "[]"] obtain rows bss aes where
    l: "score_loop example_api 3 10 [example_prediction] [] [] [] = Inr (rows, bss, aes)"
    by blast
  have i: "0 < length [example_prediction]" by simp
  from outcome_fields[OF l i] l show ?thesis
    by (simp add: example_prediction_def)
qed

text \<open>
  Claim C10. A repository object without the key \<open>stargazers_count\<close> counts as zero
  stars. At scoring time, when every repository of the batch is fetched, the run
  completes and the ledger receives one row for each prediction, in order; the row of a
  prediction whose repository object lacks the key has \<open>stars_after_7d = 0\<close> and
  \<open>delta_stars = - stars_now\<close>. At prediction time the prediction has
  \<open>stars_now = 0\<close>, and it is produced whenever the fork count is not negative and the
  last push is at most 2828 days old.
\<close>

theorem missing_star_count_is_zero:
  "(predictions_json s (date_of (now - 7 * 86400)) = Some preds
      \<and> list_all (\<lambda>q. api (full_name q) \<noteq> None) preds
      \<and> i < length preds
      \<and> api (full_name (preds ! i)) = Some r \<and> stargazers_count r = None \<longrightarrow>
      (\<exists>rows. fst (score_main api now s) = Inr ()
         \<and> outcomes_csv (snd (score_main api now s)) =
             Some (case outcomes_csv s of
                     None \<Rightarrow> Header fieldnames # map Row rows
                   | Some ls \<Rightarrow> ls @ map Row rows)
         \<and> length rows = length preds
         \<and> row_full_name (rows ! i) = full_name (preds ! i)
         \<and> row_stars_at_prediction (rows ! i) = stars_now (preds ! i)
         \<and> row_stars_after_7d (rows ! i) = 0
         \<and> row_delta_stars (rows ! i) = - stars_now (preds ! i)))
   \<and> (stargazers_count r' = None \<and> predict_repo now' r' = Inr pr \<longrightarrow> stars_now pr = 0)
   \<and> (stargazers_count r' = None \<and> 0 \<le> get_int (forks_count r') 0
        \<and> since_push_days now' r' \<le> 2828 \<longrightarrow>
        (\<exists>pr. predict_repo now' r' = Inr pr \<and> stars_now pr = 0))"
proof (intro conjI impI)
  let ?td = "date_of (now - 7 * 86400)"
  assume a: "predictions_json s ?td = Some preds
      \<and> list_all (\<lambda>q. api (full_name q) \<noteq> None) preds
      \<and> i < length preds
      \<and> api (full_name (preds ! i)) = Some r \<and> stargazers_count r = None"
  then have b: "predictions_json s ?td = Some preds"
    and all: "list_all (\<lambda>q. api (full_name q) \<noteq> None) preds"
    and i: "i < length preds"
    and r: "api (full_name (preds ! i)) = Some r" and none: "stargazers_count r = None"
    by simp_all
  from score_loop_all_fetched[OF all, of ?td "date_of now" "[]" "[]" "[]"]
  obtain rows bss aes where
    l: "score_loop api ?td (date_of now) preds [] [] [] = Inr (rows, bss, aes)"
    by blast
  from score_loop_nth[OF l i] r have len: "length rows = length preds"
    and t: "score_repo ?td (date_of now) (preds ! i) r = (rows ! i, bss ! i, aes ! i)"
    by auto
  from len i have ne: "rows \<noteq> []" by auto
  note m = score_main_scores_batch[OF b l ne]
  from score_repo_fields[OF t] none
  have f: "row_stars_at_prediction (rows ! i) = stars_now (preds ! i)"
    "row_stars_after_7d (rows ! i) = 0"
    "row_delta_stars (rows ! i) = - stars_now (preds ! i)"
    by (simp_all add: get_int_def)
  from m(1,2) len score_repo_name[OF t] f
  show "\<exists>rows. fst (score_main api now s) = Inr ()
         \<and> outcomes_csv (snd (score_main api now s)) =
             Some (case outcomes_csv s of
                     None \<Rightarrow> Header fieldnames # map Row rows
                   | Some ls \<Rightarrow> ls @ map Row rows)
         \<and> length rows = length preds
         \<and> row_full_name (rows ! i) = full_name (preds ! i)
         \<and> row_stars_at_prediction (rows ! i) = stars_now (preds ! i)
         \<and> row_stars_after_7d (rows ! i) = 0
         \<and> row_delta_stars (rows ! i) = - stars_now (preds ! i)"
    by blast
next
  assume c: "stargazers_count r' = None \<and> predict_repo now' r' = Inr pr"
  then have "predict_repo now' r' = Inr pr" by simp
  from predict_repo_InrD[OF this] c show "stars_now pr = 0"
    by (auto simp: get_int_def)
next
  assume d: "stargazers_count r' = None \<and> 0 \<le> get_int (forks_count r') 0
        \<and> since_push_days now' r' \<le> 2828"
  then have "0 \<le> get_int (stargazers_count r') 0" by (simp add: get_int_def)
  from predict_repo_total[OF this] d obtain pr where
    pr: "predict_repo now' r' = Inr pr" by blast
  from predict_repo_InrD[OF pr] d have "stars_now pr = 0"
    by (auto simp: get_int_def)
  with pr show "\<exists>pr. predict_repo now' r' = Inr pr \<and> stars_now pr = 0" by blast
qed

theorem missing_star_count_is_zero_witness:
  "(\<exists>rows.
      fst (score_main example_api (10 * 86400)
             (example_files [example_prediction\<lparr> full_name := ''octo/bare'' \<rparr>])) = Inr ()
      \<and> outcomes_csv (snd (score_main example_api (10 * 86400)
             (example_files [example_prediction\<lparr> full_name := ''octo/bare'' \<rparr>])))
          = Some (Header fieldnames # map Row rows)
      \<and> length rows = 1
      \<and> row_full_name (rows ! 0) = ''octo/bare''
      \<and> row_stars_after_7d (rows ! 0) = 0
      \<and> row_delta_stars (rows ! 0) = - 1000)
   \<and> (\<exists>pr. predict_repo 864000 (example_repo\<lparr> stargazers_count := None \<rparr>) = Inr pr
          \<and> stars_now pr = 0)"
proof -
  let ?p = "example_prediction\<lparr> full_name := ''octo/bare'' \<rparr>"
  let ?r = "example_repo\<lparr> stargazers_count := None \<rparr>"
  let ?s = "example_files [?p]"
  have d: "date_of (10 * 86400 - 7 * 86400) = 3" by (simp add: date_of_def)
  have a: "predictions_json ?s (date_of (10 * 86400 - 7 * 86400)) = Some [?p]
      \<and> list_all (\<lambda>q. example_api (full_name q) \<noteq> None) [?p]
      \<and> 0 < length [?p]
      \<and> example_api (full_name ([?p] ! 0)) = Some ?r \<and> stargazers_count ?r = None"
    unfolding d by (simp add: example_files_def example_api_def)
  have b: "stargazers_count ?r = None \<and> 0 \<le> get_int (forks_count ?r) 0
        \<and> since_push_days 864000 ?r \<le> 2828"
    by (simp add: example_repo_def get_int_def since_push_days_def)
  have o: "outcomes_csv ?s = None" by (simp add: example_files_def)
  have n: "full_name ?p = ''octo/bare''" "stars_now ?p = 1000"
    by (simp_all add: example_prediction_def)
  note t = missing_star_count_is_zero[where api = example_api and s = ?s
      and now = "10 * 86400" and preds = "[?p]" and i = 0 and r = ?r
      and r' = ?r and now' = 864000]
  from t a obtain rows where
    "fst (score_main example_api (10 * 86400) ?s) = Inr ()
     \<and> outcomes_csv (snd (score_main example_api (10 * 86400) ?s)) =
         Some (case outcomes_csv ?s of
                 None \<Rightarrow> Header fieldnames # map Row rows
               | Some ls \<Rightarrow> ls @ map Row rows)
     \<and> length rows = length [?p]
     \<and> row_full_name (rows ! 0) = full_name ([?p] ! 0)
     \<and> row_stars_at_prediction (rows ! 0) = stars_now ([?p] ! 0)
     \<and> row_stars_after_7d (rows ! 0) = 0
     \<and> row_delta_stars (rows ! 0) = - stars_now ([?p] ! 0)"
    by blast
  then have first: "\<exists>rows.
      fst (score_main example_api (10 * 86400) ?s) = Inr ()
      \<and> outcomes_csv (snd (score_main example_api (10 * 86400) ?s))
          = Some (Header fieldnames # map Row rows)
      \<and> length rows = 1
      \<and> row_full_name (rows ! 0) = ''octo/bare''
      \<and> row_stars_after_7d (rows ! 0) = 0
      \<and> row_delta_stars (rows ! 0) = - 1000"
    unfolding o using n by auto
  from t b have "\<exists>pr. predict_repo 864000 ?r = Inr pr \<and> stars_now pr = 0"
    by blast
  with first show ?thesis by blast
qed

section \<open>The worked example of the specification\<close>

text \<open>
  Bounds on \<open>exp\<close> and \<open>log 10\<close> at the example's arguments, from the Taylor
  polynomial of degree three and from comparisons of integer powers.
\<close>

lemma exp_16: "exp (x::real) = exp (x / 16) ^ 16"
  using exp_of_nat_mult[of 16 "x / 16"] by simp

lemma exp_2055_lower: "(7.78::real) < exp 2.055"
proof -
  let ?y = "2.055 / 16 :: real"
  have "1 + ?y + ?y ^ 2 / 2 + ?y ^ 3 / 6 \<le> exp ?y"
    by (rule exp_taylor4) simp_all
  then have "(1 + ?y + ?y ^ 2 / 2 + ?y ^ 3 / 6) ^ 16 \<le> exp ?y ^ 16"
    by (rule power_mono) simp
  moreover have "(7.78::real) < (1 + ?y + ?y ^ 2 / 2 + ?y ^ 3 / 6) ^ 16"
    by (simp add: power_divide)
  ultimately show ?thesis unfolding exp_16[of "2.055"] by linarith
qed

lemma exp_20566_upper: "exp 2.0566 < (7.83::real)"
proof -
  let ?y = "2.0566 / 16 :: real"
  have "exp ?y \<le> 1 + ?y + ?y ^ 2 / 2 + ?y ^ 3 / 6 + ?y ^ 4 / 8"
    by (rule exp_taylor4) simp_all
  then have "exp ?y ^ 16 \<le> (1 + ?y + ?y ^ 2 / 2 + ?y ^ 3 / 6 + ?y ^ 4 / 8) ^ 16"
    by (rule power_mono) simp
  moreover have "(1 + ?y + ?y ^ 2 / 2 + ?y ^ 3 / 6 + ?y ^ 4 / 8) ^ 16 < (7.83::real)"
    by (simp add: power_divide)
  ultimately show ?thesis unfolding exp_16[of "2.0566"] by linarith
qed

lemma ln_10_ge_1: "1 \<le> ln (10::real)"
proof -
  have "exp (1::real) \<le> 10" using exp_le_3 by linarith
  then show ?thesis by (simp add: ln_ge_iff)
qed

lemma log10_upper_by_power:
  fixes x :: real
  assumes "0 < x" "x ^ n \<le> 10 ^ m" "0 < n"
  shows "log 10 x \<le> real m / real n"
proof -
  have "log 10 (x ^ n) \<le> log 10 (10 ^ m)"
    using assms(1,2) by (simp del: log_pow_cancel)
  then have "real n * log 10 x \<le> real m"
    using assms(1) by (simp add: log_nat_power)
  then show ?thesis using assms(3) by (simp add: pos_le_divide_eq mult.commute)
qed

lemma log10_lower_by_power:
  fixes x :: real
  assumes "0 < x" "10 ^ m \<le> x ^ n" "0 < n"
  shows "real m / real n \<le> log 10 x"
proof -
  have "log 10 (10 ^ m) \<le> log 10 (x ^ n)"
    using assms(1,2) by (simp del: log_pow_cancel)
  then have "real m \<le> real n * log 10 x"
    using assms(1) by (simp add: log_nat_power)
  then show ?thesis using assms(3) by (simp add: pos_divide_le_eq mult.commute)
qed

lemma log10_near_100:
  fixes d :: real
  assumes "0 \<le> d"
  shows "2 \<le> log 10 (100 * (1 + d)) \<and> log 10 (100 * (1 + d)) \<le> 2 + d"
proof -
  have l: "0 < ln (10::real)" using ln_10_ge_1 by linarith
  have h: "log 10 (100::real) = 2"
    using log_pow_cancel[of 10 2] by simp
  have m: "log 10 (100 * (1 + d)) = log 10 100 + log 10 (1 + d)"
    by (rule log_mult_pos) (use assms in simp_all)
  have "0 \<le> ln (1 + d)" using assms by simp
  then have lo: "0 \<le> log 10 (1 + d)" using l by (simp add: log_def)
  have "ln (1 + d) \<le> d" using assms by (rule ln_add_one_self_le_self)
  also have "d \<le> d * ln 10" using ln_10_ge_1 assms by (simp add: mult_le_cancel_left1)
  finally have "log 10 (1 + d) \<le> d" using l by (simp add: log_def pos_divide_le_eq)
  with lo show ?thesis unfolding m h by simp
qed

lemma log10_51_bounds: "1.7 \<le> log 10 51 \<and> log 10 51 \<le> 1.71"
proof -
  have "real 17 / real 10 \<le> log 10 51"
    by (rule log10_lower_by_power) simp_all
  moreover have "log 10 51 \<le> real 171 / real 100"
    by (rule log10_upper_by_power) simp_all
  ultimately show ?thesis by simp
qed

lemma logistic_alt: "1 / (1 + exp (- z)) = exp z / (exp z + 1)" for z :: real
proof -
  have "0 < exp z" by simp
  then show ?thesis unfolding exp_minus by (simp add: field_simps)
qed

lemma example_z_bounds:
  "2.055 \<le> 0.9 * log 10 (100 * (1 + 0.0001)) - 0.25 * 0 + 0.15 * log 10 51
   \<and> 0.9 * log 10 (100 * (1 + 0.0001)) - 0.25 * 0 + 0.15 * log 10 51 \<le> (2.0566 :: real)"
  using log10_near_100[of "0.0001"] log10_51_bounds by simp

lemma example_logistic_bounds:
  fixes z :: real
  assumes "2.055 \<le> z" "z \<le> 2.0566"
  shows "0.8861 < 1 / (1 + exp (- z)) \<and> 1 / (1 + exp (- z)) < 0.8868"
proof -
  have "exp 2.055 \<le> exp z" "exp z \<le> exp 2.0566" using assms by simp_all
  then have e: "7.78 < exp z" "exp z < 7.83"
    using exp_2055_lower exp_20566_upper by linarith+
  then have "0 < exp z + 1" by linarith
  then show ?thesis unfolding logistic_alt using e
    by (simp add: pos_less_divide_eq pos_divide_less_eq)
qed

lemma example_p_breakout:
  "\<exists>p. p_breakout (stars_per_day 1000 10) 0 50 = Inr p \<and> 0.8861 < p \<and> p < 0.8868"
proof -
  let ?z = "0.9 * log 10 (100 * (1 + 0.0001)) - 0.25 * 0 + 0.15 * log 10 51 :: real"
  have spd: "stars_per_day 1000 10 + 0.01 = 100 * (1 + 0.0001)"
    by (simp add: stars_per_day_def)
  have z: "z_score (stars_per_day 1000 10) 0 50 = Inr ?z"
    unfolding z_score_def math_log10_def spd by simp
  have "- ?z \<le> 709" using example_z_bounds by simp
  from logistic_Inr[OF this] z
  have "p_breakout (stars_per_day 1000 10) 0 50 = Inr (clamp (1 / (1 + exp (- ?z))) 0 1)"
    by (simp add: p_breakout_def)
  moreover from example_logistic_bounds[of ?z] example_z_bounds
  have b: "0.8861 < 1 / (1 + exp (- ?z)) \<and> 1 / (1 + exp (- ?z)) < 0.8868" by blast
  moreover from b have "clamp (1 / (1 + exp (- ?z))) 0 1 = 1 / (1 + exp (- ?z))"
    by (simp add: clamp_def)
  ultimately show ?thesis by simp
qed

lemma example_forecast_from_p:
  assumes "0.8861 < p" "p < 0.8868"
  shows "stars_pred 1000 100 p = 1932" and "band 500 p = 25"
    and "0.886 \<le> py_round_nd p 4 \<and> py_round_nd p 4 \<le> 0.887"
proof -
  have p01: "0 \<le> p" "p \<le> 1" using assms by simp_all
  note g = growth_multiplier_close[OF p01]
  show "stars_pred 1000 100 p = 1932"
    unfolding stars_pred_def
    by (rule py_round_eqI) (use assms g in simp_all)
  have "band_raw 500 p \<le> 16" by (rule band_raw_500_small) (use assms in simp_all)
  then have "max 25 (band_raw 500 p) = of_int 25" by simp
  then show "band 500 p = 25" unfolding band_def by (simp only: py_round_of_int)
  have "8860 \<le> py_round (p * 10 ^ 4)" by (rule py_round_ge) (use assms in simp)
  moreover have "py_round (p * 10 ^ 4) \<le> 8870" by (rule py_round_le) (use assms in simp)
  ultimately have "real_of_int 8860 \<le> real_of_int (py_round (p * 10 ^ 4))"
    and "real_of_int (py_round (p * 10 ^ 4)) \<le> real_of_int 8870"
    by (simp_all only: of_int_le_iff)
  then show "0.886 \<le> py_round_nd p 4 \<and> py_round_nd p 4 \<le> 0.887"
    by (simp add: py_round_nd_def)
qed

text \<open>
  Claim C7. For the repository with 1000 stars, 50 forks, created 10 days ago (100 stars
  per day) and pushed just now, the model gives a probability within 0.001 of 0.886 (also
  after rounding to four places), threshold 500, point estimate 1932, band 25 and the
  interval from 1907 to 1957.
\<close>

theorem spec_example_forecast:
  "\<exists>pr p. predict_repo 864000 example_repo = Inr pr
     \<and> stars_per_day (stars_now pr) (age_days 864000 example_repo) = 100
     \<and> p_breakout 100 (since_push_days 864000 example_repo) 50 = Inr p
     \<and> \<bar>p - 0.886\<bar> < 0.001
     \<and> \<bar>p_breakout_7d pr - 0.886\<bar> \<le> 0.001
     \<and> breakout_threshold_7d pr = 500
     \<and> stars_pred_7d pr = 1932
     \<and> band (breakout_threshold_7d pr) p = 25
     \<and> stars_pred_low_7d pr = 1907
     \<and> stars_pred_high_7d pr = 1957"
proof -
  from example_p_breakout obtain p where
    p: "p_breakout (stars_per_day 1000 10) 0 50 = Inr p" and b: "0.8861 < p" "p < 0.8868"
    by blast
  have age: "age_days 864000 example_repo = 10"
    by (simp add: age_days_def example_repo_def)
  have push: "since_push_days 864000 example_repo = 0"
    by (simp add: since_push_days_def example_repo_def)
  have spd: "stars_per_day 1000 10 = 100" by (simp add: stars_per_day_def)
  have thr: "breakout_threshold 1000 = 500" by (simp add: breakout_threshold_floor)
  note f = example_forecast_from_p[OF b]
  let ?pr = "\<lparr> date_utc = date_of 864000, full_name = ''octo/rocket'',
               html_url = ''https://github.com/octo/rocket'',
               stars_now = 1000, breakout_threshold_7d = 500,
               p_breakout_7d = py_round_nd p 4,
               stars_pred_7d = 1932, stars_pred_low_7d = 1907, stars_pred_high_7d = 1957,
               features = \<lparr> f_age_days = py_round_nd 10 3,
                            f_since_push_days = py_round_nd 0 3,
                            f_stars_per_day = py_round_nd 100 3,
                            f_forks_now = 50, f_issues_now = 3, f_language = ''Python'' \<rparr>,
               model_type = ''heuristic_logistic_v1'' \<rparr>"
  have pr: "predict_repo 864000 example_repo = Inr ?pr"
    unfolding predict_repo_def Let_def age push
    using p f(1,2)
    by (simp add: example_repo_def get_int_def spd thr low_def high_def)
  show ?thesis
    apply (rule exI[of _ ?pr])
    apply (rule exI[of _ p])
    using pr p b f by (simp add: age push spd)
qed

end
